theory Spec2Isabelle
  imports Complex_Main "HOL-Library.Signed_Division" "HOL-Library.Multiset"
begin

section \<open>Go values: errors, panics and machine integers\<close>

text \<open>
  A Go function of this repository either returns, returns an \<open>error\<close> value (built
  with \<open>fmt.Errorf\<close>, so an error is its message), or panics (an index out of range, an
  integer division by zero). Both are values of the model: \<open>Inl (Error msg)\<close> and
  \<open>Inl (Panic msg)\<close>.
\<close>

datatype error = Error string | Panic string

text \<open>
  Go's \<open>int\<close> is 64 bits wide on the platforms the repository builds for
  (\<open>GOARCH=amd64\<close> in the Makefile). Arithmetic wraps around in two's complement and
  the quotient truncates toward zero; dividing by zero panics.
\<close>

definition wrap64 :: "int \<Rightarrow> int" where
  "wrap64 x = (x + 2 ^ 63) mod 2 ^ 64 - 2 ^ 63"

definition go_add :: "int \<Rightarrow> int \<Rightarrow> int" where
  "go_add a b = wrap64 (a + b)"

definition go_sub :: "int \<Rightarrow> int \<Rightarrow> int" where
  "go_sub a b = wrap64 (a - b)"

definition go_mul :: "int \<Rightarrow> int \<Rightarrow> int" where
  "go_mul a b = wrap64 (a * b)"

definition go_quo :: "int \<Rightarrow> int \<Rightarrow> error + int" where
  "go_quo a b =
     (if b = 0 then Inl (Panic ''runtime error: integer divide by zero'')
      else Inr (wrap64 (a sdiv b)))"

section \<open>Package fan: curve points and the interpolator\<close>

text \<open>\<open>fan.go\<close>: \<open>type CurvePoint struct { Temperature int; FanSpeed int }\<close>.\<close>

record CurvePoint =
  Temperature :: int
  FanSpeed :: int

text \<open>
  \<open>interpolateFanSpeed\<close> (Linux controller). The loop
  \<open>for i := 0; i < len(curve)-1; i++\<close> is the recursion \<open>interpolateLoop\<close>; its
  counter stays below the length of the slice, so it is a \<open>nat\<close>, and both
  \<open>curve[i]\<close> and \<open>curve[i+1]\<close> are in range under the loop guard. The two reads
  before the loop, \<open>curve[0]\<close> and \<open>curve[len(curve)-1]\<close>, panic on an empty slice.
\<close>

function interpolateLoop :: "CurvePoint list \<Rightarrow> int \<Rightarrow> nat \<Rightarrow> error + int" where
  "interpolateLoop curve temp i =
     (if int i < int (length curve) - 1 then
        (if temp \<ge> Temperature (curve ! i) \<and> temp \<le> Temperature (curve ! (i + 1)) then
           (let tempRange = go_sub (Temperature (curve ! (i + 1))) (Temperature (curve ! i));
                speedRange = go_sub (FanSpeed (curve ! (i + 1))) (FanSpeed (curve ! i));
                tempDiff = go_sub temp (Temperature (curve ! i))
            in case go_quo (go_mul speedRange tempDiff) tempRange of
                 Inl e \<Rightarrow> Inl e
               | Inr q \<Rightarrow> Inr (go_add (FanSpeed (curve ! i)) q))
         else interpolateLoop curve temp (i + 1))
      else Inr (FanSpeed (curve ! (length curve - 1))))"
  by pat_completeness auto
termination
  by (relation "measure (\<lambda>(curve, temp, i). length curve - i)") auto

declare interpolateLoop.simps [simp del]

definition interpolateFanSpeed :: "CurvePoint list \<Rightarrow> int \<Rightarrow> error + int" where
  "interpolateFanSpeed curve temp =
     (if curve = [] then Inl (Panic ''runtime error: index out of range [0] with length 0'')
      else if temp \<le> Temperature (curve ! 0) then Inr (FanSpeed (curve ! 0))
      else if temp \<ge> Temperature (curve ! (length curve - 1))
        then Inr (FanSpeed (curve ! (length curve - 1)))
      else interpolateLoop curve temp 0)"

text \<open>
  The range check \<open>SetSettings\<close> runs over the points of a curve before it installs it
  (the loop \<open>for _, point := range sortedCurve\<close>): the first point out of range gives
  the error. The sign before \<open>C\<close> in the first message is the three bytes the source file
  holds there.
\<close>

fun validateCurvePoints :: "CurvePoint list \<Rightarrow> error option" where
  "validateCurvePoints [] = None"
| "validateCurvePoints (point # rest) =
     (if Temperature point < 0 \<or> Temperature point > 100
        then Some (Error (''temperature must be between 0 and 100'' @ [CHR 0xEC, CHR 0xA7, CHR 0xB8] @ ''C''))
      else if FanSpeed point < 0 \<or> FanSpeed point > 100
        then Some (Error ''fan speed must be between 0 and 100%'')
      else validateCurvePoints rest)"

section \<open>The standard library and the operating system\<close>

subsection \<open>Formatting and strings\<close>

text \<open>
  \<open>fmt.Sprintf\<close> with the verbs the repository uses on integers: \<open>%d\<close> and \<open>%+d\<close>.
  \<open>%s\<close> and \<open>%v\<close> of a string or an error are the text itself.
\<close>

function digits10 :: "nat \<Rightarrow> string" where
  "digits10 n =
     (if n < 10 then [''0123456789'' ! n]
      else digits10 (n div 10) @ [''0123456789'' ! (n mod 10)])"
  by pat_completeness auto
termination
  by (relation "measure id") auto

declare digits10.simps [simp del]

definition fmt_d :: "int \<Rightarrow> string" where
  "fmt_d i = (if i < 0 then ''-'' @ digits10 (nat (- i)) else digits10 (nat i))"

definition fmt_plus_d :: "int \<Rightarrow> string" where
  "fmt_plus_d i = (if i < 0 then ''-'' @ digits10 (nat (- i)) else ''+'' @ digits10 (nat i))"

text \<open>\<open>strings.HasPrefix\<close>, \<open>strings.Contains\<close> and \<open>strings.Join\<close>.\<close>

fun HasPrefix :: "string \<Rightarrow> string \<Rightarrow> bool" where
  "HasPrefix s [] = True"
| "HasPrefix [] (c # pre) = False"
| "HasPrefix (d # s) (c # pre) = (d = c \<and> HasPrefix s pre)"

fun Contains :: "string \<Rightarrow> string \<Rightarrow> bool" where
  "Contains [] substr = (substr = [])"
| "Contains (c # s) substr = (HasPrefix (c # s) substr \<or> Contains s substr)"

fun Join :: "string list \<Rightarrow> string \<Rightarrow> string" where
  "Join [] sep = []"
| "Join [a] sep = a"
| "Join (a # b # elems) sep = a @ sep @ Join (b # elems) sep"

text \<open>
  White space is what \<open>unicode.IsSpace\<close> accepts, which \<open>strings.TrimSpace\<close> and
  \<open>strings.Fields\<close> use: the six ASCII characters, U+0085, U+00A0, U+1680, U+2000 to
  U+200A, U+2028, U+2029, U+202F, U+205F and U+3000. A Go string is a sequence of bytes,
  so these are their UTF-8 encodings. A byte that starts no valid encoding decodes to the
  replacement character, which is no white space; a lead byte never stands inside another
  character's encoding, so a white space character is at a place of the string exactly
  when one of these encodings starts there.
\<close>

definition spaceRunes :: "string list" where
  "spaceRunes =
     [[CHR 0x09], [CHR 0x0A], [CHR 0x0B], [CHR 0x0C], [CHR 0x0D], [CHR 0x20],
      [CHR 0xC2, CHR 0x85], [CHR 0xC2, CHR 0xA0], [CHR 0xE1, CHR 0x9A, CHR 0x80],
      [CHR 0xE2, CHR 0x80, CHR 0x80], [CHR 0xE2, CHR 0x80, CHR 0x81],
      [CHR 0xE2, CHR 0x80, CHR 0x82], [CHR 0xE2, CHR 0x80, CHR 0x83],
      [CHR 0xE2, CHR 0x80, CHR 0x84], [CHR 0xE2, CHR 0x80, CHR 0x85],
      [CHR 0xE2, CHR 0x80, CHR 0x86], [CHR 0xE2, CHR 0x80, CHR 0x87],
      [CHR 0xE2, CHR 0x80, CHR 0x88], [CHR 0xE2, CHR 0x80, CHR 0x89],
      [CHR 0xE2, CHR 0x80, CHR 0x8A], [CHR 0xE2, CHR 0x80, CHR 0xA8],
      [CHR 0xE2, CHR 0x80, CHR 0xA9], [CHR 0xE2, CHR 0x80, CHR 0xAF],
      [CHR 0xE2, CHR 0x81, CHR 0x9F], [CHR 0xE3, CHR 0x80, CHR 0x80]]"

text \<open>
  \<open>strings.TrimLeftFunc\<close> over a list of encodings: the string without the encodings it
  starts with.
\<close>

function dropRunes :: "string list \<Rightarrow> string \<Rightarrow> string" where
  "dropRunes rs s =
     (case find (\<lambda>r. r \<noteq> [] \<and> HasPrefix s r) rs of
        None \<Rightarrow> s
      | Some r \<Rightarrow> dropRunes rs (drop (length r) s))"
  by pat_completeness auto
termination
proof (relation "measure (\<lambda>(rs, s). length s)")
  show "wf (measure (\<lambda>(rs, s). length s))" by simp
next
  fix rs :: "string list" and s r :: string
  assume "find (\<lambda>r. r \<noteq> [] \<and> HasPrefix s r) rs = Some r"
  then have r: "r \<noteq> []" "HasPrefix s r" by (auto simp: find_Some_iff)
  have "HasPrefix s r \<Longrightarrow> r \<noteq> [] \<Longrightarrow> s \<noteq> []" by (cases s; cases r) auto
  with r have "s \<noteq> []" by simp
  with r(1) show "((rs, drop (length r) s), (rs, s)) \<in> measure (\<lambda>(rs, s). length s)"
    by (cases r) auto
qed

declare dropRunes.simps [simp del]

text \<open>
  \<open>strings.TrimSpace\<close>: the white space is trimmed on the left, then on the right (a
  character is decoded backwards from the end by its encoding as well).
\<close>

definition TrimSpace :: "string \<Rightarrow> string" where
  "TrimSpace s = rev (dropRunes (map rev spaceRunes) (rev (dropRunes spaceRunes s)))"

text \<open>\<open>strings.Split(s, "\n")\<close>.\<close>

fun SplitLines :: "string \<Rightarrow> string list" where
  "SplitLines [] = [[]]"
| "SplitLines (c # s) =
     (if c = CHR 0x0A then [] # SplitLines s
      else (case SplitLines s of [] \<Rightarrow> [[c]] | l # ls \<Rightarrow> (c # l) # ls))"

text \<open>
  The test \<open>strings.TrimSpace(line) != ""\<close>, and the first element of
  \<open>strings.Fields(line)\<close>: the bytes after the leading white space, up to the next
  white space character.
\<close>

definition notBlank :: "string \<Rightarrow> bool" where
  "notBlank line \<longleftrightarrow> TrimSpace line \<noteq> []"

fun takeField :: "string \<Rightarrow> string" where
  "takeField [] = []"
| "takeField (c # s) =
     (if find (HasPrefix (c # s)) spaceRunes \<noteq> None then [] else c # takeField s)"

definition firstField :: "string \<Rightarrow> string" where
  "firstField line = takeField (dropRunes spaceRunes line)"

text \<open>
  \<open>filepath.Ext\<close>: the suffix of the path from the last dot of its last element, empty
  when there is none.
\<close>

fun ExtRev :: "string \<Rightarrow> string \<Rightarrow> string" where
  "ExtRev [] acc = []"
| "ExtRev (c # rest) acc =
     (if c = CHR ''/'' then []
      else if c = CHR ''.'' then c # acc
      else ExtRev rest (c # acc))"

definition Ext :: "string \<Rightarrow> string" where
  "Ext path = ExtRev (rev path) []"

subsection \<open>The operating system as an environment\<close>

text \<open>
  What the operating system answers is a parameter of the model: for each call the
  error it returns (\<open>None\<close> is success, \<open>Some msg\<close> the error's text) or the data it
  gives. The environment also holds the library functions the model leaves open
  (\<open>filepath.Join\<close> with its path cleaning, the JSON codec of a profile, \<open>%.0f\<close>,
  \<open>strconv.Atoi\<close>, the order \<open>sort.Slice\<close> leaves a curve in)
  and the answers of the repository's hardware enumeration (\<open>GetInfo\<close>,
  \<open>findAMDCardPath\<close>, \<open>findAMDHwmonPath\<close>, \<open>detectGPUVendor\<close>), which the control
  plane only consumes. What the program asks of the system is logged as a list of
  effects, in order; the hardware writes of the repository are the \<open>Wrote\<close> and
  \<open>Ran\<close> effects.
\<close>

record DirEntry =
  de_Name :: string
  de_IsDir :: bool

text \<open>\<open>gpu.Info\<close>, of which the control plane reads the vendor only.\<close>

record gpu_Info =
  Vendor :: string
  Model :: string

text \<open>
  \<open>overclock.Settings\<close> and \<open>overclock.Profile\<close> (\<open>Settings *Settings\<close> may be nil).
  Fields that several structs of the repository share carry their package as a prefix.
\<close>

record oc_Settings =
  oc_DeviceID :: int
  oc_CoreClockOffset :: int
  oc_MemoryClockOffset :: int
  oc_PowerLimit :: int
  oc_TempLimit :: int
  oc_FanSpeed :: int
  oc_VoltageOffset :: real

record Profile =
  Name :: string
  Settings :: "oc_Settings option"

type_synonym files = "string \<rightharpoonup> string"

record os_env =
  Stat_err :: "string \<Rightarrow> string option"
  OpenFile_err :: "string \<Rightarrow> string option"
  WriteFile_err :: "string \<Rightarrow> string \<Rightarrow> string option"
  ReadFile_err :: "string \<Rightarrow> string option"
  ReadFile_res :: "string \<Rightarrow> string + string"
  ReadDir_res :: "files \<Rightarrow> string \<Rightarrow> DirEntry list option"
  Run_err :: "string list \<Rightarrow> string option"
  fileExists :: "string \<Rightarrow> bool"
  filepath_Join :: "string \<Rightarrow> string \<Rightarrow> string"
  MarshalIndent :: "Profile \<Rightarrow> string + string"
  Unmarshal :: "string \<Rightarrow> Profile option"
  fmt_f0 :: "real \<Rightarrow> string"
  Atoi :: "string \<Rightarrow> string + int"
  sort_Slice_res :: "CurvePoint list \<Rightarrow> CurvePoint list"
  GetInfo_res :: "string + gpu_Info list"
  findAMDCardPath :: "int \<Rightarrow> string"
  findAMDHwmonPath :: "string \<Rightarrow> string"
  detectGPUVendor :: "int \<Rightarrow> string \<times> string option"
  WindowsReader_detectGPUVendor :: "int \<Rightarrow> string \<times> string option"

datatype effect =
    Statted string
  | Opened string
  | Wrote string string
  | ReadF string
  | Ran "string list"
  | Removed string

text \<open>
  Files that persist between calls (the profile store) are a map from paths to contents;
  \<open>ioutil.WriteFile\<close> updates it unless the system refuses, \<open>ioutil.ReadFile\<close> reads
  it.
\<close>

definition WriteFile :: "os_env \<Rightarrow> string \<Rightarrow> string \<Rightarrow> files \<Rightarrow> string option \<times> files" where
  "WriteFile env path data fs =
     (case WriteFile_err env path data of
        Some msg \<Rightarrow> (Some msg, fs)
      | None \<Rightarrow> (None, fs(path \<mapsto> data)))"

definition ReadFile :: "os_env \<Rightarrow> string \<Rightarrow> files \<Rightarrow> string + string" where
  "ReadFile env path fs =
     (case ReadFile_err env path of
        Some msg \<Rightarrow> Inl msg
      | None \<Rightarrow>
          (case fs path of
             None \<Rightarrow> Inl (''open '' @ path @ '': no such file or directory'')
           | Some data \<Rightarrow> Inr data))"

text \<open>
  Calls that leave no state the model tracks (commands, control files under \<open>/sys\<close>): the
  answer comes from the environment and the call is logged.
\<close>

definition Run :: "os_env \<Rightarrow> string list \<Rightarrow> effect list \<Rightarrow> string option \<times> effect list" where
  "Run env argv es = (Run_err env argv, es @ [Ran argv])"

definition WriteSys ::
  "os_env \<Rightarrow> string \<Rightarrow> string \<Rightarrow> effect list \<Rightarrow> string option \<times> effect list" where
  "WriteSys env path data es = (WriteFile_err env path data, es @ [Wrote path data])"

definition ReadSys :: "os_env \<Rightarrow> string \<Rightarrow> effect list \<Rightarrow> (string + string) \<times> effect list" where
  "ReadSys env path es = (ReadFile_res env path, es @ [ReadF path])"

definition errMsg :: "error \<Rightarrow> string" where
  "errMsg e = (case e of Error msg \<Rightarrow> msg | Panic msg \<Rightarrow> msg)"

section \<open>Package overclock: validation and the profile store\<close>

text \<open>Both controllers are \<open>struct { profilesDir string }\<close>.\<close>

record oc_Controller =
  profilesDir :: string

text \<open>\<open>LinuxController.validateSettings\<close>: every field is checked against its range.\<close>

definition LinuxController_validateSettings :: "oc_Settings option \<Rightarrow> error option" where
  "LinuxController_validateSettings s =
     (case s of
        None \<Rightarrow> Some (Error ''settings cannot be nil'')
      | Some settings \<Rightarrow>
          if oc_CoreClockOffset settings < - 500 \<or> oc_CoreClockOffset settings > 500
            then Some (Error ''core clock offset must be between -500 and +500 MHz'')
          else if oc_MemoryClockOffset settings < - 1000 \<or> oc_MemoryClockOffset settings > 1000
            then Some (Error ''memory clock offset must be between -1000 and +1000 MHz'')
          else if oc_PowerLimit settings < 50 \<or> oc_PowerLimit settings > 150
            then Some (Error ''power limit must be between 50% and 150%'')
          else if oc_TempLimit settings < 60 \<or> oc_TempLimit settings > 95
            then Some (Error (''temperature limit must be between 60'' @ [CHR 0xC2, CHR 0xB0]
                              @ ''C and 95'' @ [CHR 0xC2, CHR 0xB0] @ ''C''))
          else if oc_FanSpeed settings < 0 \<or> oc_FanSpeed settings > 100
            then Some (Error ''fan speed must be between 0% and 100%'')
          else if oc_VoltageOffset settings < - 100 \<or> oc_VoltageOffset settings > 100
            then Some (Error ''voltage offset must be between -100mV and +100mV'')
          else None)"

text \<open>
  \<open>WindowsController.validateSettings\<close>: the same ranges, each checked ``only if set'',
  that is when the field is not zero; the fan speed, whose zero lies in its range, is
  always checked.
\<close>

definition WindowsController_validateSettings :: "oc_Settings option \<Rightarrow> error option" where
  "WindowsController_validateSettings s =
     (case s of
        None \<Rightarrow> Some (Error ''settings cannot be nil'')
      | Some settings \<Rightarrow>
          if oc_CoreClockOffset settings \<noteq> 0
              \<and> (oc_CoreClockOffset settings < - 500 \<or> oc_CoreClockOffset settings > 500)
            then Some (Error ''core clock offset must be between -500 and +500 MHz'')
          else if oc_MemoryClockOffset settings \<noteq> 0
              \<and> (oc_MemoryClockOffset settings < - 1000 \<or> oc_MemoryClockOffset settings > 1000)
            then Some (Error ''memory clock offset must be between -1000 and +1000 MHz'')
          else if oc_PowerLimit settings \<noteq> 0
              \<and> (oc_PowerLimit settings < 50 \<or> oc_PowerLimit settings > 150)
            then Some (Error ''power limit must be between 50% and 150%'')
          else if oc_TempLimit settings \<noteq> 0
              \<and> (oc_TempLimit settings < 60 \<or> oc_TempLimit settings > 95)
            then Some (Error (''temperature limit must be between 60'' @ [CHR 0xC2, CHR 0xB0]
                              @ ''C and 95'' @ [CHR 0xC2, CHR 0xB0] @ ''C''))
          else if oc_FanSpeed settings < 0 \<or> oc_FanSpeed settings > 100
            then Some (Error ''fan speed must be between 0% and 100%'')
          else if oc_VoltageOffset settings \<noteq> 0
              \<and> (oc_VoltageOffset settings < - 100 \<or> oc_VoltageOffset settings > 100)
            then Some (Error ''voltage offset must be between -100mV and +100mV'')
          else None)"

text \<open>
  \<open>SaveProfile\<close>, the same text in both controllers but for the validation it calls.
  It returns the error (\<open>None\<close> is \<open>nil\<close>) and the files as it leaves them.
\<close>

definition SaveProfile ::
  "(oc_Settings option \<Rightarrow> error option) \<Rightarrow> os_env \<Rightarrow> oc_Controller \<Rightarrow> Profile \<Rightarrow> files
     \<Rightarrow> error option \<times> files" where
  "SaveProfile validateSettings env c profile fs =
     (if Name profile = [] then (Some (Error ''profile name cannot be empty''), fs)
      else if Name profile = ''_current''
        then (Some (Error (''profile name '' @ [CHR 0x27] @ ''_current'' @ [CHR 0x27]
                           @ '' is reserved'')), fs)
      else
        (case validateSettings (Settings profile) of
           Some err \<Rightarrow> (Some (Error (''invalid profile settings: '' @ errMsg err)), fs)
         | None \<Rightarrow>
             (let profilePath = filepath_Join env (profilesDir c) (Name profile @ ''.json'')
              in case MarshalIndent env profile of
                   Inl msg \<Rightarrow> (Some (Error (''failed to marshal profile: '' @ msg)), fs)
                 | Inr data \<Rightarrow>
                     (case WriteFile env profilePath data fs of
                        (Some msg, fs') \<Rightarrow> (Some (Error (''failed to save profile: '' @ msg)), fs')
                      | (None, fs') \<Rightarrow> (None, fs')))))"

definition LinuxController_SaveProfile ::
  "os_env \<Rightarrow> oc_Controller \<Rightarrow> Profile \<Rightarrow> files \<Rightarrow> error option \<times> files" where
  "LinuxController_SaveProfile = SaveProfile LinuxController_validateSettings"

definition WindowsController_SaveProfile ::
  "os_env \<Rightarrow> oc_Controller \<Rightarrow> Profile \<Rightarrow> files \<Rightarrow> error option \<times> files" where
  "WindowsController_SaveProfile = SaveProfile WindowsController_validateSettings"

text \<open>
  \<open>GetProfiles\<close>, the same text in both controllers: the loop over the directory's
  entries, and the function around it. Its error is \<open>nil\<close> on every path, so the model
  returns the list only.
\<close>

fun GetProfiles_loop ::
  "os_env \<Rightarrow> oc_Controller \<Rightarrow> files \<Rightarrow> DirEntry list \<Rightarrow> Profile list \<Rightarrow> Profile list" where
  "GetProfiles_loop env c fs [] profiles = profiles"
| "GetProfiles_loop env c fs (file # rest) profiles =
     (if \<not> de_IsDir file \<and> Ext (de_Name file) = ''.json'' \<and> de_Name file \<noteq> ''_current.json''
      then
        (let profilePath = filepath_Join env (profilesDir c) (de_Name file)
         in case ReadFile env profilePath fs of
              Inl err \<Rightarrow> GetProfiles_loop env c fs rest profiles
            | Inr data \<Rightarrow>
                (case Unmarshal env data of
                   None \<Rightarrow> GetProfiles_loop env c fs rest profiles
                 | Some profile \<Rightarrow> GetProfiles_loop env c fs rest (profiles @ [profile])))
      else GetProfiles_loop env c fs rest profiles)"

definition GetProfiles :: "os_env \<Rightarrow> oc_Controller \<Rightarrow> files \<Rightarrow> Profile list" where
  "GetProfiles env c fs =
     (case ReadDir_res env fs (profilesDir c) of
        None \<Rightarrow> []
      | Some entries \<Rightarrow> GetProfiles_loop env c fs entries [])"

text \<open>
  \<open>LinuxController.SetSettings\<close>: validation, then the snapshot of the settings under the
  reserved name. It writes no hardware.
\<close>

definition LinuxController_SetSettings ::
  "os_env \<Rightarrow> oc_Controller \<Rightarrow> oc_Settings option \<Rightarrow> files \<Rightarrow> error option \<times> files" where
  "LinuxController_SetSettings env c settings fs =
     (case LinuxController_validateSettings settings of
        Some err \<Rightarrow> (Some (Error (''invalid settings: '' @ errMsg err)), fs)
      | None \<Rightarrow>
          (let tempProfile = \<lparr>Name = ''_current'', Settings = settings\<rparr>;
               profilePath = filepath_Join env (profilesDir c) ''_current.json''
           in case MarshalIndent env tempProfile of
                Inl msg \<Rightarrow> (Some (Error (''failed to marshal settings: '' @ msg)), fs)
              | Inr data \<Rightarrow>
                  (case WriteFile env profilePath data fs of
                     (Some msg, fs') \<Rightarrow>
                       (Some (Error (''failed to save current settings: '' @ msg)), fs')
                   | (None, fs') \<Rightarrow> (None, fs'))))"

section \<open>Package gpu: applying overclock settings\<close>

text \<open>\<open>gpu.go\<close>: \<open>OverclockSettings\<close> and \<open>OverclockResult\<close>.\<close>

record OverclockSettings =
  gpu_CoreClockOffset :: int
  gpu_MemoryClockOffset :: int
  gpu_PowerLimit :: int
  gpu_FanSpeed :: int

record OverclockResult =
  Success :: bool
  Applied :: "string list"
  Warnings :: "string list"
  Errors :: "string list"

subsection \<open>Linux, NVIDIA\<close>

text \<open>
  \<open>setNvidiaOverclockSettings\<close>. Its four blocks, one per field, each take the result
  record and the log and return them updated; the function runs the device check and
  then the blocks in the order of the source.
\<close>

definition nvidia_applyCoreClockOffset ::
  "os_env \<Rightarrow> int \<Rightarrow> OverclockSettings \<Rightarrow> OverclockResult \<times> effect list
     \<Rightarrow> OverclockResult \<times> effect list" where
  "nvidia_applyCoreClockOffset env deviceID settings st =
     (case st of (result, es) \<Rightarrow>
        if gpu_CoreClockOffset settings \<noteq> 0 then
          (case Run env [''nvidia-settings'', ''-a'',
                         ''[gpu:'' @ fmt_d deviceID @ '']/GPUGraphicsClockOffset[3]=''
                           @ fmt_d (gpu_CoreClockOffset settings)] es of
             (Some err, es') \<Rightarrow>
               (result\<lparr>Errors := Errors result @ [''failed to set core clock offset: '' @ err],
                       Success := False\<rparr>, es')
           | (None, es') \<Rightarrow>
               (result\<lparr>Applied := Applied result
                  @ [''core clock offset: '' @ fmt_plus_d (gpu_CoreClockOffset settings) @ '' MHz'']\<rparr>,
                es'))
        else (result, es))"

definition nvidia_applyMemoryClockOffset ::
  "os_env \<Rightarrow> int \<Rightarrow> OverclockSettings \<Rightarrow> OverclockResult \<times> effect list
     \<Rightarrow> OverclockResult \<times> effect list" where
  "nvidia_applyMemoryClockOffset env deviceID settings st =
     (case st of (result, es) \<Rightarrow>
        if gpu_MemoryClockOffset settings \<noteq> 0 then
          (case Run env [''nvidia-settings'', ''-a'',
                         ''[gpu:'' @ fmt_d deviceID @ '']/GPUMemoryTransferRateOffset[3]=''
                           @ fmt_d (gpu_MemoryClockOffset settings)] es of
             (Some err, es') \<Rightarrow>
               (result\<lparr>Errors := Errors result @ [''failed to set memory clock offset: '' @ err],
                       Success := False\<rparr>, es')
           | (None, es') \<Rightarrow>
               (result\<lparr>Applied := Applied result
                  @ [''memory clock offset: '' @ fmt_plus_d (gpu_MemoryClockOffset settings)
                     @ '' MHz'']\<rparr>,
                es'))
        else (result, es))"

definition nvidia_applyPowerLimit ::
  "os_env \<Rightarrow> int \<Rightarrow> OverclockSettings \<Rightarrow> OverclockResult \<times> effect list
     \<Rightarrow> OverclockResult \<times> effect list" where
  "nvidia_applyPowerLimit env deviceID settings st =
     (case st of (result, es) \<Rightarrow>
        if gpu_PowerLimit settings > 0 then
          (case Run env [''nvidia-smi'', ''-i'', fmt_d deviceID,
                         ''-pl'', fmt_d (gpu_PowerLimit settings)] es of
             (Some err, es') \<Rightarrow>
               (if Contains err ''Insufficient permissions'' \<or> Contains err ''permission denied''
                   \<or> Contains err ''Operation not permitted''
                then result\<lparr>Warnings := Warnings result
                       @ [''power limit setting requires root privileges (requested: ''
                          @ fmt_d (gpu_PowerLimit settings) @ ''%)'']\<rparr>
                else result\<lparr>Warnings := Warnings result @ [''failed to set power limit: '' @ err]\<rparr>,
                es')
           | (None, es') \<Rightarrow>
               (result\<lparr>Applied := Applied result
                  @ [''power limit: '' @ fmt_d (gpu_PowerLimit settings) @ ''%'']\<rparr>, es'))
        else (result, es))"

definition nvidia_applyFanSpeed ::
  "os_env \<Rightarrow> int \<Rightarrow> OverclockSettings \<Rightarrow> OverclockResult \<times> effect list
     \<Rightarrow> OverclockResult \<times> effect list" where
  "nvidia_applyFanSpeed env deviceID settings st =
     (case st of (result, es) \<Rightarrow>
        if gpu_FanSpeed settings > 0 then
          (case Run env [''nvidia-settings'',
                         ''-a'', ''[gpu:'' @ fmt_d deviceID @ '']/GPUFanControlState=1'',
                         ''-a'', ''[fan:'' @ fmt_d deviceID @ '']/GPUTargetFanSpeed=''
                           @ fmt_d (gpu_FanSpeed settings)] es of
             (Some err, es') \<Rightarrow>
               (result\<lparr>Errors := Errors result @ [''failed to set fan speed: '' @ err],
                       Success := False\<rparr>, es')
           | (None, es') \<Rightarrow>
               (result\<lparr>Applied := Applied result
                  @ [''fan speed: '' @ fmt_d (gpu_FanSpeed settings) @ ''%'']\<rparr>, es'))
        else (result, es))"

definition setNvidiaOverclockSettings ::
  "os_env \<Rightarrow> int \<Rightarrow> OverclockSettings \<Rightarrow> effect list
     \<Rightarrow> (error + OverclockResult) \<times> effect list" where
  "setNvidiaOverclockSettings env deviceID settings es =
     (let result = \<lparr>Success = True, Applied = [], Warnings = [], Errors = []\<rparr>
      in case Run env [''nvidia-smi'', ''-i'', fmt_d deviceID] es of
           (Some err, es') \<Rightarrow>
             (Inl (Error (''GPU device '' @ fmt_d deviceID @ '' not found'')), es')
         | (None, es') \<Rightarrow>
             (case nvidia_applyFanSpeed env deviceID settings
                     (nvidia_applyPowerLimit env deviceID settings
                       (nvidia_applyMemoryClockOffset env deviceID settings
                         (nvidia_applyCoreClockOffset env deviceID settings (result, es')))) of
                (result', es'') \<Rightarrow>
                  (Inr (if length (Errors result') = 0 \<and> length (Warnings result') > 0
                        then result'\<lparr>Success := True\<rparr> else result'),
                   es'')))"

subsection \<open>Linux, AMD\<close>

text \<open>
  \<open>setAMDOverclockSettings\<close>, block by block as above. The loop over the lines of a
  \<open>pp_dpm\<close> file keeps the first field of the last line that is not blank and has no
  star (\<open>strings.Fields\<close> of a line that is not blank has a first element).
\<close>

definition maxStateOf :: "string \<Rightarrow> string" where
  "maxStateOf data =
     fold (\<lambda>line maxState.
             if notBlank line \<and> \<not> Contains line ''*'' then firstField line else maxState)
          (SplitLines data) []"

definition amd_setManual ::
  "os_env \<Rightarrow> string \<Rightarrow> OverclockResult \<times> effect list \<Rightarrow> OverclockResult \<times> effect list" where
  "amd_setManual env cardPath st =
     (case st of (result, es) \<Rightarrow>
        (let perfLevelPath = filepath_Join env cardPath ''power_dpm_force_performance_level''
         in if fileExists env perfLevelPath then
              (case WriteSys env perfLevelPath ''manual'' es of
                 (Some err, es') \<Rightarrow>
                   (result\<lparr>Warnings := Warnings result
                      @ [''failed to set manual performance level (may need root): '' @ err]\<rparr>, es')
               | (None, es') \<Rightarrow>
                   (result\<lparr>Applied := Applied result @ [''enabled manual performance mode'']\<rparr>, es'))
            else (result, es)))"

definition amd_applyClock ::
  "os_env \<Rightarrow> string \<Rightarrow> int \<Rightarrow> string \<Rightarrow> string \<Rightarrow> string
     \<Rightarrow> OverclockResult \<times> effect list \<Rightarrow> OverclockResult \<times> effect list" where
  "amd_applyClock env cardPath offset fileName failed done st =
     (case st of (result, es) \<Rightarrow>
        if offset \<noteq> 0 then
          (let clkPath = filepath_Join env cardPath fileName
           in if fileExists env clkPath then
                (case ReadSys env clkPath es of
                   (Inl err, es') \<Rightarrow> (result, es')
                 | (Inr clkData, es') \<Rightarrow>
                     (let maxState = maxStateOf clkData
                      in if maxState \<noteq> [] then
                           (case WriteSys env (filepath_Join env cardPath fileName) maxState es' of
                              (Some err, es'') \<Rightarrow>
                                (result\<lparr>Warnings := Warnings result @ [failed @ err]\<rparr>, es'')
                            | (None, es'') \<Rightarrow>
                                (result\<lparr>Applied := Applied result @ [done @ maxState]\<rparr>, es''))
                         else (result, es')))
              else (result, es))
        else (result, es))"

definition amd_applyPowerLimit ::
  "OverclockSettings \<Rightarrow> OverclockResult \<times> effect list \<Rightarrow> OverclockResult \<times> effect list" where
  "amd_applyPowerLimit settings st =
     (case st of (result, es) \<Rightarrow>
        if gpu_PowerLimit settings > 0 \<and> gpu_PowerLimit settings \<noteq> 100 then
          (result\<lparr>Warnings := Warnings result
             @ [''AMD power limit adjustment requires additional tools like ''
                @ [CHR 0x27] @ ''amdgpu-pro'' @ [CHR 0x27] @ '' drivers'']\<rparr>, es)
        else (result, es))"

definition amd_applyFanSpeed ::
  "os_env \<Rightarrow> string \<Rightarrow> OverclockSettings \<Rightarrow> OverclockResult \<times> effect list
     \<Rightarrow> (error + OverclockResult) \<times> effect list" where
  "amd_applyFanSpeed env cardPath settings st =
     (case st of (result, es) \<Rightarrow>
        if gpu_FanSpeed settings > 0 then
          (let hwmonPath = findAMDHwmonPath env cardPath
           in if hwmonPath \<noteq> [] then
                (let pwm1Path = filepath_Join env hwmonPath ''pwm1'';
                     pwm1EnablePath = filepath_Join env hwmonPath ''pwm1_enable''
                 in if fileExists env pwm1Path \<and> fileExists env pwm1EnablePath then
                      (case WriteSys env pwm1EnablePath ''1'' es of
                         (Some err, es') \<Rightarrow>
                           (Inr (result\<lparr>Warnings := Warnings result
                              @ [''failed to enable manual fan control: '' @ err]\<rparr>), es')
                       | (None, es') \<Rightarrow>
                           (case go_quo (go_mul (gpu_FanSpeed settings) 255) 100 of
                              Inl e \<Rightarrow> (Inl e, es')
                            | Inr pwmVal \<Rightarrow>
                                (case WriteSys env pwm1Path (fmt_d pwmVal) es' of
                                   (Some err, es'') \<Rightarrow>
                                     (Inr (result\<lparr>Warnings := Warnings result
                                        @ [''failed to set fan speed: '' @ err]\<rparr>), es'')
                                 | (None, es'') \<Rightarrow>
                                     (Inr (result\<lparr>Applied := Applied result
                                        @ [''fan speed: '' @ fmt_d (gpu_FanSpeed settings) @ ''%'']\<rparr>),
                                      es''))))
                    else (Inr result, es))
              else (Inr result, es))
        else (Inr result, es))"

definition setAMDOverclockSettings ::
  "os_env \<Rightarrow> int \<Rightarrow> OverclockSettings \<Rightarrow> effect list
     \<Rightarrow> (error + OverclockResult) \<times> effect list" where
  "setAMDOverclockSettings env deviceID settings es =
     (let result = \<lparr>Success = True, Applied = [], Warnings = [], Errors = []\<rparr>;
          cardPath = findAMDCardPath env deviceID
      in if cardPath = [] then
           (Inl (Error (''AMD GPU card'' @ fmt_d deviceID @ '' not found'')), es)
         else
           (case amd_applyFanSpeed env cardPath settings
                   (amd_applyPowerLimit settings
                     (amd_applyClock env cardPath (gpu_MemoryClockOffset settings) ''pp_dpm_mclk''
                        ''failed to set memory clock state (may need root): ''
                        ''set memory to performance state ''
                       (amd_applyClock env cardPath (gpu_CoreClockOffset settings) ''pp_dpm_sclk''
                          ''failed to set GPU clock state (may need root): ''
                          ''set GPU to performance state ''
                         (amd_setManual env cardPath (result, es))))) of
              (Inl e, es') \<Rightarrow> (Inl e, es')
            | (Inr result', es') \<Rightarrow>
                (Inr (if length (Applied result') = 0 \<and> length (Warnings result') > 0
                      then result'\<lparr>Warnings := Warnings result'
                             @ [''AMD GPU overclocking may require root privileges or ''
                                @ ''additional driver setup'']\<rparr>
                      else result'),
                 es')))"

subsection \<open>Linux: the dispatch on the vendor\<close>

text \<open>
  \<open>LinuxReader.SetOverclockSettings\<close>. The guard compares the device number with the
  number of GPUs from above only; \<open>gpus[deviceID]\<close> panics on a negative one. No range
  of any field of the settings is checked on this path.
\<close>

definition SetOverclockSettings ::
  "os_env \<Rightarrow> int \<Rightarrow> OverclockSettings \<Rightarrow> effect list
     \<Rightarrow> (error + OverclockResult) \<times> effect list" where
  "SetOverclockSettings env deviceID settings es =
     (case GetInfo_res env of
        Inl err \<Rightarrow> (Inl (Error (''GPU device '' @ fmt_d deviceID @ '' not found'')), es)
      | Inr gpus \<Rightarrow>
          if deviceID \<ge> int (length gpus)
            then (Inl (Error (''GPU device '' @ fmt_d deviceID @ '' not found'')), es)
          else if deviceID < 0
            then (Inl (Panic (''runtime error: index out of range ['' @ fmt_d deviceID @ '']'')), es)
          else
            (let gpu = gpus ! nat deviceID
             in if Vendor gpu = ''nvidia'' then setNvidiaOverclockSettings env deviceID settings es
                else if Vendor gpu = ''amd'' then setAMDOverclockSettings env deviceID settings es
                else (Inl (Error (''overclocking not supported for '' @ Vendor gpu @ '' GPUs'')),
                      es)))"

subsection \<open>Windows: the overclock controller and the reader on top of it\<close>

text \<open>
  \<open>WindowsController.setNvidiaSettings\<close>: only the power limit reaches the hardware;
  every other configured field is an error. (The joined errors are passed to
  \<open>fmt.Errorf\<close> as its format; the model takes the text as it is.)
\<close>

definition setNvidiaSettings ::
  "os_env \<Rightarrow> oc_Settings \<Rightarrow> effect list \<Rightarrow> error option \<times> effect list" where
  "setNvidiaSettings env settings es =
     (case (if oc_PowerLimit settings > 0 then
              (case Run env [''nvidia-smi'', ''-i'', fmt_d (oc_DeviceID settings),
                             ''-pl'', fmt_d (oc_PowerLimit settings)] es of
                 (Some err, es') \<Rightarrow> ([''failed to set NVIDIA power limit: '' @ err], es')
               | (None, es') \<Rightarrow> ([], es'))
            else ([], es)) of
        (errors1, es') \<Rightarrow>
          (let errors2 =
                 (if oc_CoreClockOffset settings \<noteq> 0 \<or> oc_MemoryClockOffset settings \<noteq> 0
                  then errors1 @ [''clock offset adjustment requires additional tools ''
                                  @ ''(MSI Afterburner, EVGA Precision, etc.)'']
                  else errors1);
               errors3 =
                 (if oc_VoltageOffset settings \<noteq> 0
                  then errors2 @ [''voltage offset adjustment requires additional tools ''
                                  @ ''(MSI Afterburner, EVGA Precision, etc.)'']
                  else errors2);
               errors4 =
                 (if oc_FanSpeed settings > 0
                  then errors3 @ [''fan speed control requires additional tools ''
                                  @ ''(MSI Afterburner, EVGA Precision, etc.)'']
                  else errors3)
           in if length errors4 > 0 then (Some (Error (Join errors4 ''; '')), es')
              else (None, es')))"

text \<open>
  \<open>WindowsController.setAMDSettings\<close>: the whole record goes to the vendor tool in one
  configuration file, which is removed afterwards.
\<close>

definition setAMDSettings ::
  "os_env \<Rightarrow> oc_Controller \<Rightarrow> oc_Settings \<Rightarrow> files \<times> effect list
     \<Rightarrow> error option \<times> (files \<times> effect list)" where
  "setAMDSettings env c settings st =
     (case st of (fs, es) \<Rightarrow>
        (let configPath = filepath_Join env (profilesDir c)
                            (''temp_config_'' @ fmt_d (oc_DeviceID settings) @ ''.txt'');
             configLines =
               (if oc_CoreClockOffset settings \<noteq> 0
                  then [''GPU_P7: '' @ fmt_d (oc_CoreClockOffset settings)] else [])
               @ (if oc_MemoryClockOffset settings \<noteq> 0
                  then [''Mem_P3: '' @ fmt_d (oc_MemoryClockOffset settings)] else [])
               @ (if oc_PowerLimit settings > 0
                  then [''Power_Limit: '' @ fmt_d (oc_PowerLimit settings)] else [])
               @ (if oc_TempLimit settings > 0
                  then [''Temp_Limit: '' @ fmt_d (oc_TempLimit settings)] else [])
               @ (if oc_FanSpeed settings > 0
                  then [''Fan_Min: '' @ fmt_d (oc_FanSpeed settings),
                        ''Fan_Max: '' @ fmt_d (oc_FanSpeed settings)] else [])
               @ (if oc_VoltageOffset settings \<noteq> 0
                  then [''Voltage_GPU: '' @ fmt_f0 env (oc_VoltageOffset settings)] else []);
             configContent = Join configLines [CHR 0x0A]
         in case WriteFile env configPath configContent fs of
              (Some err, fs') \<Rightarrow>
                (Some (Error (''failed to create OverdriveNTool config: '' @ err)),
                 (fs', es @ [Wrote configPath configContent]))
            | (None, fs') \<Rightarrow>
                (case Run env [''OverdriveNTool.exe'', ''-p'', fmt_d (oc_DeviceID settings),
                               ''-f'', configPath] (es @ [Wrote configPath configContent]) of
                   (Some err, es') \<Rightarrow>
                     (Some (Error (''failed to apply AMD settings with OverdriveNTool: '' @ err)),
                      (fs'(configPath := None), es' @ [Removed configPath]))
                 | (None, es') \<Rightarrow>
                     (None, (fs'(configPath := None), es' @ [Removed configPath])))))"

text \<open>
  \<open>WindowsController.SetSettings\<close>: validation first, then the vendor, then the vendor's
  path, then the snapshot under the reserved name.
\<close>

definition WindowsController_SetSettings ::
  "os_env \<Rightarrow> oc_Controller \<Rightarrow> oc_Settings option \<Rightarrow> files \<times> effect list
     \<Rightarrow> error option \<times> (files \<times> effect list)" where
  "WindowsController_SetSettings env c s st =
     (case WindowsController_validateSettings s of
        Some err \<Rightarrow> (Some (Error (''invalid settings: '' @ errMsg err)), st)
      | None \<Rightarrow>
          (case s of
             None \<Rightarrow> (Some (Panic ''runtime error: invalid memory address or nil pointer dereference''), st)
           | Some settings \<Rightarrow>
               (case detectGPUVendor env (oc_DeviceID settings) of
                  (vendor, Some err) \<Rightarrow>
                    (Some (Error (''failed to detect GPU vendor: '' @ err)), st)
                | (vendor, None) \<Rightarrow>
                    (case (if vendor = ''nvidia'' then
                             (case setNvidiaSettings env settings (snd st) of
                                (applyErr, es') \<Rightarrow> (applyErr, (fst st, es')))
                           else if vendor = ''amd'' then setAMDSettings env c settings st
                           else (Some (Error (''unsupported GPU vendor: '' @ vendor)), st)) of
                       (Some applyErr, st') \<Rightarrow> (Some applyErr, st')
                     | (None, (fs', es')) \<Rightarrow>
                         (let tempProfile = \<lparr>Name = ''_current'', Settings = s\<rparr>;
                              profilePath = filepath_Join env (profilesDir c) ''_current.json''
                          in case MarshalIndent env tempProfile of
                               Inl msg \<Rightarrow>
                                 (Some (Error (''failed to marshal settings: '' @ msg)), (fs', es'))
                             | Inr data \<Rightarrow>
                                 (case WriteFile env profilePath data fs' of
                                    (Some msg, fs'') \<Rightarrow>
                                      (Some (Error (''failed to save current settings: '' @ msg)),
                                       (fs'', es'))
                                  | (None, fs'') \<Rightarrow> (None, (fs'', es'))))))))"

text \<open>
  \<open>WindowsReader.SetOverclockSettings\<close>: the request goes to the overclock controller
  (\<open>overclock.NewController()\<close>, on this platform the Windows controller) with the
  default temperature limit 83 and no voltage offset; its error becomes the single entry
  of \<open>Errors\<close>. The Go error of the function is \<open>nil\<close> on every path.
\<close>

definition WindowsReader_SetOverclockSettings ::
  "os_env \<Rightarrow> oc_Controller \<Rightarrow> int \<Rightarrow> OverclockSettings \<Rightarrow> files \<times> effect list
     \<Rightarrow> (error + OverclockResult) \<times> (files \<times> effect list)" where
  "WindowsReader_SetOverclockSettings env c deviceID settings st =
     (let overclockSettings =
            \<lparr>oc_DeviceID = deviceID,
             oc_CoreClockOffset = gpu_CoreClockOffset settings,
             oc_MemoryClockOffset = gpu_MemoryClockOffset settings,
             oc_PowerLimit = gpu_PowerLimit settings,
             oc_TempLimit = 83,
             oc_FanSpeed = gpu_FanSpeed settings,
             oc_VoltageOffset = 0\<rparr>
      in case WindowsController_SetSettings env c (Some overclockSettings) st of
           (Some (Panic msg), st') \<Rightarrow> (Inl (Panic msg), st')
         | (Some (Error msg), st') \<Rightarrow>
             (Inr \<lparr>Success = False, Applied = [], Warnings = [], Errors = [msg]\<rparr>, st')
         | (None, st') \<Rightarrow>
             (let applied =
                    (if gpu_CoreClockOffset settings \<noteq> 0
                       then [''Core clock offset: '' @ fmt_plus_d (gpu_CoreClockOffset settings)
                             @ '' MHz''] else [])
                    @ (if gpu_MemoryClockOffset settings \<noteq> 0
                       then [''Memory clock offset: '' @ fmt_plus_d (gpu_MemoryClockOffset settings)
                             @ '' MHz''] else [])
                    @ (if gpu_PowerLimit settings > 0
                       then [''Power limit: '' @ fmt_d (gpu_PowerLimit settings) @ ''%''] else [])
                    @ (if gpu_FanSpeed settings > 0
                       then [''Fan speed: '' @ fmt_d (gpu_FanSpeed settings) @ ''%''] else []);
                  vendor = fst (WindowsReader_detectGPUVendor env deviceID);
                  warnings =
                    (if vendor = ''nvidia''
                        \<and> (gpu_CoreClockOffset settings \<noteq> 0 \<or> gpu_MemoryClockOffset settings \<noteq> 0
                             \<or> gpu_FanSpeed settings > 0)
                     then [''NVIDIA clock/voltage/fan control requires additional tools ''
                           @ ''(MSI Afterburner, EVGA Precision, etc.)'']
                     else [])
              in (Inr \<lparr>Success = True, Applied = applied, Warnings = warnings, Errors = []\<rparr>,
                  st')))"

section \<open>Package fan: the Linux controller\<close>

text \<open>
  \<open>fan.go\<close>: \<open>FanMode\<close> is a string type with three named values, and \<open>Settings\<close>.
\<close>

type_synonym FanMode = string

definition ModeAuto :: FanMode where
  "ModeAuto = ''auto''"

definition ModeFixed :: FanMode where
  "ModeFixed = ''fixed''"

definition ModeCurve :: FanMode where
  "ModeCurve = ''curve''"

record fan_Settings =
  Mode :: FanMode
  FixedSpeed :: int
  Curve :: "CurvePoint list"

text \<open>
  \<open>curveState\<close>. Its stop channel is made with the state and reached through it only,
  so the channel is the field: open, or closed by \<open>close\<close>.
\<close>

datatype chan = ChanOpen | ChanClosed

record curveState =
  curve :: "CurvePoint list"
  lastTemp :: int
  isActive :: bool
  stopChannel :: chan

text \<open>
  A goroutine started by \<open>startFanCurve\<close> is the closure's captured variables: the fan,
  the curve, and the pointer to its state.
\<close>

record goroutine =
  g_fanID :: int
  g_curve :: "CurvePoint list"
  g_state :: nat

text \<open>
  \<open>LinuxController\<close>. \<open>curveStates\<close> is \<open>map[int]*curveState\<close>: the state objects live
  in a heap, a pointer is the index of its object, and \<open>&curveState{...}\<close> appends a new
  one. Beside the struct's fields the record holds what the program has set in motion:
  the heap, the goroutines started so far, and the log of effects.
\<close>

record LinuxController =
  pwmPaths :: "string list"
  fanPaths :: "string list"
  tempPaths :: "string list"
  curveStates :: "int \<rightharpoonup> nat"
  heap :: "curveState list"
  goroutines :: "goroutine list"
  effects :: "effect list"

text \<open>\<open>newPlatformController\<close>, with what \<open>discoverFans\<close> finds as parameters.\<close>

definition newPlatformController :: "string list \<Rightarrow> string list \<Rightarrow> string list \<Rightarrow> LinuxController" where
  "newPlatformController pwm fans temps =
     \<lparr>pwmPaths = pwm, fanPaths = fans, tempPaths = temps, curveStates = Map.empty,
      heap = [], goroutines = [], effects = []\<rparr>"

text \<open>\<open>checkWritePermissions\<close>: the loop over the paths, returning at the first error.\<close>

fun checkWritePermissions ::
  "os_env \<Rightarrow> string list \<Rightarrow> effect list \<Rightarrow> error option \<times> effect list" where
  "checkWritePermissions env [] es = (None, es)"
| "checkWritePermissions env (path # paths) es =
     (case Stat_err env path of
        Some err \<Rightarrow>
          (Some (Error (''path '' @ path @ '' not accessible: '' @ err)), es @ [Statted path])
      | None \<Rightarrow>
          (case OpenFile_err env path of
             Some err \<Rightarrow>
               (Some (Error (''no write permission for '' @ path
                  @ '' (try running as root or add user to appropriate group): '' @ err)),
                es @ [Statted path, Opened path])
           | None \<Rightarrow> checkWritePermissions env paths (es @ [Statted path, Opened path])))"

text \<open>
  \<open>startFanCurve\<close>: the new state, its entry in the map, and the goroutine. What the
  goroutine does on a tick is \<open>curveTick\<close> below.
\<close>

definition startFanCurve :: "int \<Rightarrow> CurvePoint list \<Rightarrow> LinuxController \<Rightarrow> LinuxController" where
  "startFanCurve fanID sortedCurve c =
     (let state = length (heap c)
      in c\<lparr>heap := heap c @ [\<lparr>curve = sortedCurve, lastTemp = 0, isActive = True,
                                stopChannel = ChanOpen\<rparr>],
            curveStates := (curveStates c)(fanID \<mapsto> state),
            goroutines := goroutines c
              @ [\<lparr>g_fanID = fanID, g_curve = sortedCurve, g_state = state\<rparr>]\<rparr>)"

text \<open>
  \<open>stopFanCurve\<close>. Closing a closed channel panics in Go; the guard on \<open>isActive\<close>
  stands before it.
\<close>

definition stopFanCurve :: "int \<Rightarrow> LinuxController \<Rightarrow> error + LinuxController" where
  "stopFanCurve fanID c =
     (case curveStates c fanID of
        None \<Rightarrow> Inr c
      | Some state \<Rightarrow>
          if isActive (heap c ! state) then
            (if stopChannel (heap c ! state) = ChanClosed
               then Inl (Panic ''close of closed channel'')
             else Inr (c\<lparr>heap := (heap c)[state := (heap c ! state)\<lparr>isActive := False,
                                                                    stopChannel := ChanClosed\<rparr>],
                         curveStates := (curveStates c)(fanID := None)\<rparr>))
          else Inr c)"

text \<open>
  \<open>setPWMSpeed\<close>. As in the functions below, the guard on the fan number compares it
  with the number of fans from above only, and \<open>c.pwmPaths[fanID]\<close> panics on a negative
  one.
\<close>

definition setPWMSpeed ::
  "os_env \<Rightarrow> int \<Rightarrow> int \<Rightarrow> LinuxController \<Rightarrow> error option \<times> LinuxController" where
  "setPWMSpeed env fanID speedPercent c =
     (if fanID \<ge> int (length (pwmPaths c))
        then (Some (Error (''fan ID '' @ fmt_d fanID @ '' not found'')), c)
      else
        (let speedPercent1 = (if speedPercent < 0 then 0 else speedPercent);
             speedPercent2 = (if speedPercent1 > 100 then 100 else speedPercent1)
         in case go_quo (go_mul speedPercent2 255) 100 of
              Inl e \<Rightarrow> (Some e, c)
            | Inr pwmVal \<Rightarrow>
                if fanID < 0
                  then (Some (Panic (''runtime error: index out of range ['' @ fmt_d fanID @ '']'')), c)
                else
                  (case WriteSys env (pwmPaths c ! nat fanID) (fmt_d pwmVal) (effects c) of
                     (Some err, es) \<Rightarrow> (Some (Error err), c\<lparr>effects := es\<rparr>)
                   | (None, es) \<Rightarrow> (None, c\<lparr>effects := es\<rparr>))))"

text \<open>
  One iteration of a goroutine's loop on the case \<open><-ticker.C\<close>, with the value of
  \<open>c.getCurrentTemperature()\<close> as a parameter (0 when no temperature could be read). The
  error \<open>setPWMSpeed\<close> returns is dropped, as in the source; a panic ends the program.
\<close>

definition curveTick :: "os_env \<Rightarrow> goroutine \<Rightarrow> int \<Rightarrow> LinuxController \<Rightarrow> error + LinuxController" where
  "curveTick env g temp c =
     (if temp > 0 then
        (case interpolateFanSpeed (g_curve g) temp of
           Inl e \<Rightarrow> Inl e
         | Inr fanSpeed \<Rightarrow>
             (case setPWMSpeed env (g_fanID g) fanSpeed c of
                (Some (Panic msg), c') \<Rightarrow> Inl (Panic msg)
              | (Some (Error msg), c') \<Rightarrow>
                  Inr (c'\<lparr>heap := (heap c')[g_state g := (heap c' ! g_state g)\<lparr>lastTemp := temp\<rparr>]\<rparr>)
              | (None, c') \<Rightarrow>
                  Inr (c'\<lparr>heap := (heap c')[g_state g := (heap c' ! g_state g)\<lparr>lastTemp := temp\<rparr>]\<rparr>)))
      else Inr c)"

text \<open>
  \<open>sort.Slice(sortedCurve, ...)\<close> with the order of the temperatures. The library
  promises that the slice ends up sorted and promises no order among points of equal
  temperature; which sorted rearrangement results is the answer of the environment (an
  answer that is no sorted rearrangement of the slice is not one \<open>sort.Slice\<close> can give,
  and the insertion sort's result stands in for it).
\<close>

definition sort_Slice :: "os_env \<Rightarrow> CurvePoint list \<Rightarrow> CurvePoint list" where
  "sort_Slice env cv =
     (let r = sort_Slice_res env cv
      in if mset r = mset cv \<and> sorted (map Temperature r) then r
         else sort_key Temperature cv)"

text \<open>
  \<open>SetSettings\<close>. The three cases of the \<open>switch\<close> are the branches of the
  conditional, in the order of the source: only the case \<open>ModeCurve\<close> calls
  \<open>stopFanCurve\<close>.
\<close>

definition SetSettings ::
  "os_env \<Rightarrow> int \<Rightarrow> fan_Settings \<Rightarrow> LinuxController \<Rightarrow> error option \<times> LinuxController" where
  "SetSettings env fanID settings c =
     (if fanID \<ge> int (length (pwmPaths c))
        then (Some (Error (''fan ID '' @ fmt_d fanID @ '' not found'')), c)
      else if fanID < 0
        then (Some (Panic (''runtime error: index out of range ['' @ fmt_d fanID @ '']'')), c)
      else
        (let pwmPath = pwmPaths c ! nat fanID;
             enablePath = pwmPath @ ''_enable''
         in case checkWritePermissions env [pwmPath, enablePath] (effects c) of
              (Some err, es) \<Rightarrow>
                (Some (Error (''insufficient permissions for fan control: '' @ errMsg err)),
                 c\<lparr>effects := es\<rparr>)
            | (None, es) \<Rightarrow>
                if Mode settings = ModeFixed then
                  (case WriteSys env enablePath ''1'' es of
                     (Some err, es1) \<Rightarrow>
                       (Some (Error (''failed to set manual mode: '' @ err)), c\<lparr>effects := es1\<rparr>)
                   | (None, es1) \<Rightarrow>
                       (case go_quo (go_mul (FixedSpeed settings) 255) 100 of
                          Inl e \<Rightarrow> (Some e, c\<lparr>effects := es1\<rparr>)
                        | Inr pwmVal \<Rightarrow>
                            (let pwmVal1 = (if pwmVal > 255 then 255 else pwmVal);
                                 pwmVal2 = (if pwmVal1 < 0 then 0 else pwmVal1)
                             in case WriteSys env pwmPath (fmt_d pwmVal2) es1 of
                                  (Some err, es2) \<Rightarrow>
                                    (Some (Error (''failed to set PWM value: '' @ err)),
                                     c\<lparr>effects := es2\<rparr>)
                                | (None, es2) \<Rightarrow> (None, c\<lparr>effects := es2\<rparr>))))
                else if Mode settings = ModeAuto then
                  (case WriteSys env enablePath ''2'' es of
                     (Some err, es1) \<Rightarrow>
                       (Some (Error (''failed to set automatic mode: '' @ err)), c\<lparr>effects := es1\<rparr>)
                   | (None, es1) \<Rightarrow> (None, c\<lparr>effects := es1\<rparr>))
                else if Mode settings = ModeCurve then
                  (case stopFanCurve fanID (c\<lparr>effects := es\<rparr>) of
                     Inl e \<Rightarrow> (Some e, c\<lparr>effects := es\<rparr>)
                   | Inr c1 \<Rightarrow>
                       if length (Curve settings) < 2
                         then (Some (Error ''fan curve must have at least 2 points''), c1)
                       else
                         (let sortedCurve = sort_Slice env (Curve settings)
                          in case validateCurvePoints sortedCurve of
                               Some e \<Rightarrow> (Some e, c1)
                             | None \<Rightarrow>
                                 (case WriteSys env enablePath ''1'' (effects c1) of
                                    (Some err, es1) \<Rightarrow>
                                      (Some (Error (''failed to set manual mode for curve: '' @ err)),
                                       c1\<lparr>effects := es1\<rparr>)
                                  | (None, es1) \<Rightarrow>
                                      (None, startFanCurve fanID sortedCurve (c1\<lparr>effects := es1\<rparr>)))))
                else (Some (Error (''unsupported fan mode: '' @ Mode settings)), c\<lparr>effects := es\<rparr>)))"

text \<open>\<open>GetSettings\<close>: the guard, the curve state if there is one, then the control files.\<close>

definition GetSettings ::
  "os_env \<Rightarrow> int \<Rightarrow> LinuxController \<Rightarrow> (error + fan_Settings) \<times> LinuxController" where
  "GetSettings env fanID c =
     (if fanID \<ge> int (length (pwmPaths c))
        then (Inl (Error (''fan ID '' @ fmt_d fanID @ '' not found'')), c)
      else if (case curveStates c fanID of None \<Rightarrow> False | Some state \<Rightarrow> isActive (heap c ! state))
        then (Inr \<lparr>Mode = ModeCurve, FixedSpeed = 0,
                   Curve = curve (heap c ! the (curveStates c fanID))\<rparr>, c)
      else if fanID < 0
        then (Inl (Panic (''runtime error: index out of range ['' @ fmt_d fanID @ '']'')), c)
      else
        (let pwmPath = pwmPaths c ! nat fanID;
             enablePath = pwmPath @ ''_enable''
         in case ReadSys env enablePath (effects c) of
              (Inl err, es) \<Rightarrow> (Inr \<lparr>Mode = ModeAuto, FixedSpeed = 0, Curve = []\<rparr>, c\<lparr>effects := es\<rparr>)
            | (Inr enableData, es) \<Rightarrow>
                (let enableVal = TrimSpace enableData
                 in case ReadSys env pwmPath es of
                      (Inl err, es1) \<Rightarrow>
                        (Inl (Error (''failed to read PWM value: '' @ err)), c\<lparr>effects := es1\<rparr>)
                    | (Inr pwmData, es1) \<Rightarrow>
                        (case Atoi env (TrimSpace pwmData) of
                           Inl err \<Rightarrow>
                             (Inl (Error (''invalid PWM value: '' @ err)), c\<lparr>effects := es1\<rparr>)
                         | Inr pwmVal \<Rightarrow>
                             if enableVal = ''1'' then
                               (case go_quo (go_mul pwmVal 100) 255 of
                                  Inl e \<Rightarrow> (Inl e, c\<lparr>effects := es1\<rparr>)
                                | Inr speed \<Rightarrow>
                                    (Inr \<lparr>Mode = ModeFixed, FixedSpeed = speed, Curve = []\<rparr>,
                                     c\<lparr>effects := es1\<rparr>))
                             else (Inr \<lparr>Mode = ModeAuto, FixedSpeed = 0, Curve = []\<rparr>,
                                   c\<lparr>effects := es1\<rparr>)))))"

text \<open>
  A goroutine can take the case \<open><-ticker.C\<close> of its \<open>select\<close> while its stop channel
  is open.
\<close>

definition live :: "LinuxController \<Rightarrow> goroutine \<Rightarrow> bool" where
  "live c g \<longleftrightarrow> g \<in> set (goroutines c) \<and> stopChannel (heap c ! g_state g) = ChanOpen"

text \<open>
  The invariant of the controller's state: a new controller has it, and every call of
  \<open>SetSettings\<close> and \<open>GetSettings\<close> and every iteration of a goroutine keeps it, as long
  as a call runs from its start to its end with no other call in between (the controller
  takes no lock). An entry of \<open>curveStates\<close> points to an
  allocated state that is active, whose channel is open and whose goroutine was started;
  a goroutine's state is allocated and holds the goroutine's curve, and a goroutine whose
  channel is open is the one \<open>curveStates\<close> has for its fan; no two goroutines share a
  state.
\<close>

definition wf :: "LinuxController \<Rightarrow> bool" where
  "wf c \<longleftrightarrow>
     (\<forall>f a. curveStates c f = Some a \<longrightarrow>
        a < length (heap c) \<and> isActive (heap c ! a) \<and> stopChannel (heap c ! a) = ChanOpen
        \<and> 0 \<le> f \<and> f < int (length (pwmPaths c))
        \<and> \<lparr>g_fanID = f, g_curve = curve (heap c ! a), g_state = a\<rparr> \<in> set (goroutines c))
     \<and> (\<forall>g \<in> set (goroutines c).
          g_state g < length (heap c) \<and> g_curve g = curve (heap c ! g_state g)
          \<and> (stopChannel (heap c ! g_state g) = ChanOpen
               \<longrightarrow> curveStates c (g_fanID g) = Some (g_state g)))
     \<and> distinct (map g_state (goroutines c))"


section \<open>A concrete environment\<close>

text \<open>
  An environment to run the model in: every system call succeeds, the directory listing
  is the given one, no file exists besides those of the store, the first given number of
  devices are NVIDIA GPUs, the profile codec keeps a profile's name only, and
  \<open>sort.Slice\<close> leaves points of equal temperature in the order they came in.
\<close>

definition quiet_env :: "DirEntry list \<Rightarrow> nat \<Rightarrow> os_env" where
  "quiet_env entries gpus =
     \<lparr>Stat_err = (\<lambda>path. None),
      OpenFile_err = (\<lambda>path. None),
      WriteFile_err = (\<lambda>path data. None),
      ReadFile_err = (\<lambda>path. None),
      ReadFile_res = (\<lambda>path. Inl ''no such file or directory''),
      ReadDir_res = (\<lambda>fs dir. Some entries),
      Run_err = (\<lambda>argv. None),
      fileExists = (\<lambda>path. False),
      filepath_Join = (\<lambda>dir elem. dir @ ''/'' @ elem),
      MarshalIndent = (\<lambda>profile. Inr (Name profile)),
      Unmarshal = (\<lambda>data. Some \<lparr>Name = data, Settings = None\<rparr>),
      fmt_f0 = (\<lambda>x. ''0''),
      Atoi = (\<lambda>s. Inl ''invalid syntax''),
      sort_Slice_res = sort_key Temperature,
      GetInfo_res = Inr (replicate gpus \<lparr>Vendor = ''nvidia'', Model = ''GPU''\<rparr>),
      findAMDCardPath = (\<lambda>deviceID. []),
      findAMDHwmonPath = (\<lambda>cardPath. []),
      detectGPUVendor = (\<lambda>deviceID. (''nvidia'', None)),
      WindowsReader_detectGPUVendor = (\<lambda>deviceID. (''nvidia'', None))\<rparr>"

text \<open>
  A controller with one fan; two curve settings; the goroutine the first starts; the state
  after the first is set on the new controller and the state after the second is set on
  that one, every system call succeeding; and an environment in which no file can be
  opened for writing.
\<close>

definition one_fan :: LinuxController where
  "one_fan = newPlatformController [''/sys/class/hwmon/hwmon0/pwm1''] [] []"

definition curve_A :: fan_Settings where
  "curve_A = \<lparr>Mode = ModeCurve, FixedSpeed = 0,
               Curve = [\<lparr>Temperature = 0, FanSpeed = 20\<rparr>, \<lparr>Temperature = 100, FanSpeed = 100\<rparr>]\<rparr>"

definition curve_B :: fan_Settings where
  "curve_B = \<lparr>Mode = ModeCurve, FixedSpeed = 0,
               Curve = [\<lparr>Temperature = 40, FanSpeed = 30\<rparr>, \<lparr>Temperature = 80, FanSpeed = 90\<rparr>]\<rparr>"

definition loop_A :: goroutine where
  "loop_A = \<lparr>g_fanID = 0, g_curve = Curve curve_A, g_state = 0\<rparr>"

definition state_A :: LinuxController where
  "state_A = snd (SetSettings (quiet_env [] 0) 0 curve_A one_fan)"


definition locked_env :: os_env where
  "locked_env =
     (quiet_env [] 0)\<lparr>OpenFile_err := (\<lambda>path. Some (''open '' @ path @ '': permission denied''))\<rparr>"
section \<open>The interpolator: arithmetic without overflow\<close>

lemma wrap64_id: "- (2 ^ 63) \<le> x \<Longrightarrow> x < 2 ^ 63 \<Longrightarrow> wrap64 x = x"
  unfolding wrap64_def by (simp add: mod_pos_pos_trivial)

lemma validateCurvePoints_None:
  "validateCurvePoints cv = None \<longleftrightarrow>
     (\<forall>p \<in> set cv. 0 \<le> Temperature p \<and> Temperature p \<le> 100 \<and> 0 \<le> FanSpeed p \<and> FanSpeed p \<le> 100)"
  by (induction cv) auto

lemma sdiv_pos_bounds:
  fixes a b :: int
  assumes "0 < b"
  shows "- \<bar>a\<bar> \<le> a sdiv b" and "a sdiv b \<le> \<bar>a\<bar>"
proof -
  have d: "0 \<le> \<bar>a\<bar> div b" "\<bar>a\<bar> div b \<le> \<bar>a\<bar>"
    using assms zdiv_mono2[of "\<bar>a\<bar>" 1 b] by (simp_all add: pos_imp_zdiv_nonneg_iff)
  have "a sdiv b = sgn a * (\<bar>a\<bar> div b)"
    using assms by (simp add: signed_divide_int_def)
  then show "- \<bar>a\<bar> \<le> a sdiv b" and "a sdiv b \<le> \<bar>a\<bar>"
    using d by (cases "a < 0"; cases "a = 0"; simp)+
qed

lemma sdiv_exact: "(0::int) < b \<Longrightarrow> (a * b) sdiv b = a"
  by (simp add: signed_divide_int_def abs_mult sgn_mult mult_sgn_abs)


text \<open>One interpolation step is exact on points within bounds.\<close>

lemma interp_step:
  assumes "0 \<le> tp" "tp < tq" "tq \<le> 100" "0 \<le> sp" "sp \<le> 100" "0 \<le> sq" "sq \<le> 100"
    "tp \<le> T" "T \<le> tq"
  shows "(case go_quo (go_mul (go_sub sq sp) (go_sub T tp)) (go_sub tq tp) of
            Inl e \<Rightarrow> Inl e | Inr q \<Rightarrow> Inr (go_add sp q))
         = Inr (sp + ((sq - sp) * (T - tp)) sdiv (tq - tp))"
proof -
  have 1: "go_sub sq sp = sq - sp" "go_sub T tp = T - tp" "go_sub tq tp = tq - tp"
    using assms by (simp_all add: go_sub_def wrap64_id)
  have m: "\<bar>(sq - sp) * (T - tp)\<bar> \<le> 100 * 100"
    unfolding abs_mult using assms by (intro mult_mono) auto
  then have 2: "go_mul (sq - sp) (T - tp) = (sq - sp) * (T - tp)"
    by (simp add: go_mul_def wrap64_id)
  have pos: "0 < tq - tp" using assms by simp
  note b = sdiv_pos_bounds[OF pos, of "(sq - sp) * (T - tp)"]
  have 3: "wrap64 (((sq - sp) * (T - tp)) sdiv (tq - tp)) = ((sq - sp) * (T - tp)) sdiv (tq - tp)"
    using b m by (intro wrap64_id) auto
  have 4: "go_add sp (((sq - sp) * (T - tp)) sdiv (tq - tp)) = sp + ((sq - sp) * (T - tp)) sdiv (tq - tp)"
    unfolding go_add_def using b m assms by (intro wrap64_id) auto
  show ?thesis
    using pos by (simp add: 1 2 3 4 go_quo_def)
qed

lemma interpolateLoop_skip:
  assumes "\<forall>j. k \<le> j \<and> j < m \<longrightarrow>
             \<not> (Temperature (cv ! j) \<le> T \<and> T \<le> Temperature (cv ! (j + 1)))"
    and "k \<le> m" and "m + 1 < length cv"
  shows "interpolateLoop cv T k = interpolateLoop cv T m"
  using assms
proof (induction "m - k" arbitrary: k)
  case 0
  then show ?case by simp
next
  case (Suc d)
  then have lt: "k < m" by simp
  have "interpolateLoop cv T k = interpolateLoop cv T (k + 1)"
    using Suc.prems lt by (subst interpolateLoop.simps) auto
  also have "\<dots> = interpolateLoop cv T m"
    using Suc.hyps Suc.prems lt by (intro Suc.hyps(1)) auto
  finally show ?case .
qed

lemma interpolateLoop_hit:
  assumes "validateCurvePoints cv = None"
    and "m + 1 < length cv"
    and "Temperature (cv ! m) \<le> T" "T \<le> Temperature (cv ! (m + 1))"
    and "Temperature (cv ! m) < Temperature (cv ! (m + 1))"
  shows "interpolateLoop cv T m =
           Inr (FanSpeed (cv ! m) +
                ((FanSpeed (cv ! (m + 1)) - FanSpeed (cv ! m)) * (T - Temperature (cv ! m)))
                  sdiv (Temperature (cv ! (m + 1)) - Temperature (cv ! m)))"
proof -
  have b: "\<And>j. j < length cv \<Longrightarrow> 0 \<le> Temperature (cv ! j) \<and> Temperature (cv ! j) \<le> 100
              \<and> 0 \<le> FanSpeed (cv ! j) \<and> FanSpeed (cv ! j) \<le> 100"
    using assms(1) by (simp add: validateCurvePoints_None)
  have bm: "0 \<le> Temperature (cv ! m)" "0 \<le> FanSpeed (cv ! m)" "FanSpeed (cv ! m) \<le> 100"
    using b[of m] assms(2) by auto
  have bm1: "Temperature (cv ! (m + 1)) \<le> 100" "0 \<le> FanSpeed (cv ! (m + 1))"
    "FanSpeed (cv ! (m + 1)) \<le> 100"
    using b[of "m + 1"] assms(2) by auto
  note st = interp_step[OF bm(1) assms(5) bm1(1) bm(2,3) bm1(2,3) assms(3,4)]
  show ?thesis
    using assms(2-4) st by (subst interpolateLoop.simps) (simp add: Let_def)
qed

lemma nth_Temperature_mono:
  assumes "sorted (map Temperature cv)" "i \<le> j" "j < length cv"
  shows "Temperature (cv ! i) \<le> Temperature (cv ! j)"
  using sorted_nth_mono[OF assms(1), of i j] assms(2,3) by simp

lemma nth_Temperature_strict:
  assumes "sorted (map Temperature cv)" "distinct (map Temperature cv)" "i < j" "j < length cv"
  shows "Temperature (cv ! i) < Temperature (cv ! j)"
proof -
  have "sorted_wrt (<) (map Temperature cv)"
    using assms(1,2) by (simp add: strict_sorted_iff)
  from sorted_wrt_nth_less[OF this, of i j] assms(3,4) show ?thesis by simp
qed

lemma interpolate_segment:
  assumes v: "validateCurvePoints cv = None"
    and s: "sorted (map Temperature cv)" and d: "distinct (map Temperature cv)"
    and i: "i + 1 < length cv"
    and lo: "Temperature (cv ! i) \<le> T" and hi: "T \<le> Temperature (cv ! (i + 1))"
  shows "interpolateFanSpeed cv T =
           Inr (FanSpeed (cv ! i) +
                ((FanSpeed (cv ! (i + 1)) - FanSpeed (cv ! i)) * (T - Temperature (cv ! i)))
                  sdiv (Temperature (cv ! (i + 1)) - Temperature (cv ! i)))"
    (is "_ = Inr (?f i)")
proof -
  have ne: "cv \<noteq> []" using i by auto
  have step: "Temperature (cv ! i) < Temperature (cv ! (i + 1))"
    using nth_Temperature_strict[OF s d, of i "i + 1"] i by simp
  consider (first) "T \<le> Temperature (cv ! 0)"
    | (last) "Temperature (cv ! 0) < T" "Temperature (cv ! (length cv - 1)) \<le> T"
    | (mid) "Temperature (cv ! 0) < T" "T < Temperature (cv ! (length cv - 1))"
    by linarith
  then show ?thesis
  proof cases
    case first
    have "i = 0"
    proof (rule ccontr)
      assume "i \<noteq> 0"
      then have "Temperature (cv ! 0) < Temperature (cv ! i)"
        using nth_Temperature_strict[OF s d, of 0 i] i by simp
      with first lo show False by simp
    qed
    with first lo have "T = Temperature (cv ! 0)" by simp
    with \<open>i = 0\<close> first ne show ?thesis
      by (simp add: interpolateFanSpeed_def)
  next
    case last
    have "i + 1 = length cv - 1"
    proof (rule ccontr)
      assume "i + 1 \<noteq> length cv - 1"
      then have "Temperature (cv ! (i + 1)) < Temperature (cv ! (length cv - 1))"
        using nth_Temperature_strict[OF s d, of "i + 1" "length cv - 1"] i by simp
      with last hi show False by simp
    qed
    then have e: "length cv - 1 = i + 1" by simp
    with last hi have T: "T = Temperature (cv ! (i + 1))" by simp
    have "?f i = FanSpeed (cv ! (i + 1))"
      using step by (simp add: T sdiv_exact)
    with last ne e show ?thesis
      by (simp add: interpolateFanSpeed_def)
  next
    case mid
    have top: "interpolateFanSpeed cv T = interpolateLoop cv T 0"
      using mid ne by (simp add: interpolateFanSpeed_def)
    show ?thesis
    proof (cases "T = Temperature (cv ! i)")
      case False
      with lo have lt: "Temperature (cv ! i) < T" by simp
      have "\<forall>j. 0 \<le> j \<and> j < i \<longrightarrow>
              \<not> (Temperature (cv ! j) \<le> T \<and> T \<le> Temperature (cv ! (j + 1)))"
      proof (intro allI impI)
        fix j assume "0 \<le> j \<and> j < i"
        then have "Temperature (cv ! (j + 1)) \<le> Temperature (cv ! i)"
          using nth_Temperature_mono[OF s, of "j + 1" i] i by simp
        with lt show "\<not> (Temperature (cv ! j) \<le> T \<and> T \<le> Temperature (cv ! (j + 1)))"
          by simp
      qed
      from interpolateLoop_skip[OF this _ i] interpolateLoop_hit[OF v i lo hi step] top
      show ?thesis by simp
    next
      case True
      have "i \<noteq> 0"
      proof
        assume "i = 0"
        then have "T = Temperature (cv ! 0)" using True by simp
        then show False using mid(1) by simp
      qed
      then obtain k where k: "i = k + 1" by (cases i) auto
      have k1: "k + 1 < length cv" using i k by simp
      have stepk: "Temperature (cv ! k) < Temperature (cv ! (k + 1))"
        using nth_Temperature_strict[OF s d, of k "k + 1"] k1 by simp
      have lok: "Temperature (cv ! k) \<le> T" and hik: "T \<le> Temperature (cv ! (k + 1))"
        using stepk True k by simp_all
      have "\<forall>j. 0 \<le> j \<and> j < k \<longrightarrow>
              \<not> (Temperature (cv ! j) \<le> T \<and> T \<le> Temperature (cv ! (j + 1)))"
      proof (intro allI impI)
        fix j assume "0 \<le> j \<and> j < k"
        then have "Temperature (cv ! (j + 1)) < Temperature (cv ! i)"
          using nth_Temperature_strict[OF s d, of "j + 1" i] i k by simp
        with True show "\<not> (Temperature (cv ! j) \<le> T \<and> T \<le> Temperature (cv ! (j + 1)))"
          by simp
      qed
      from interpolateLoop_skip[OF this _ k1] interpolateLoop_hit[OF v k1 lok hik stepk] top
      have "interpolateFanSpeed cv T = Inr (?f k)" by simp
      moreover have "?f k = FanSpeed (cv ! i)"
        using stepk True k by (simp add: sdiv_exact)
      moreover have "?f i = FanSpeed (cv ! i)"
        using True by (simp add: signed_divide_int_def)
      ultimately show ?thesis by simp
    qed
  qed
qed


lemma interpolate_below:
  "cv \<noteq> [] \<Longrightarrow> T \<le> Temperature (cv ! 0) \<Longrightarrow> interpolateFanSpeed cv T = Inr (FanSpeed (cv ! 0))"
  by (simp add: interpolateFanSpeed_def)

lemma interpolate_above:
  "cv \<noteq> [] \<Longrightarrow> Temperature (cv ! 0) < T \<Longrightarrow> Temperature (cv ! (length cv - 1)) \<le> T
    \<Longrightarrow> interpolateFanSpeed cv T = Inr (FanSpeed (cv ! (length cv - 1)))"
  by (simp add: interpolateFanSpeed_def)

lemmas go_int_defs = go_add_def go_sub_def go_mul_def go_quo_def wrap64_def signed_divide_int_def

text \<open>
  Claim C3. For a curve that passes validation (at least two points, every temperature and
  speed within 0..100) and is sorted ascending with pairwise distinct temperatures, the
  interpolator returns the first point's speed at or below the first temperature, the last
  point's speed at or above the last temperature, and for consecutive points \<open>i\<close>,
  \<open>i + 1\<close> around the sample the value
  \<open>s\<^sub>i + (s\<^sub>i\<^sub>+\<^sub>1 - s\<^sub>i) * (T - t\<^sub>i) / (t\<^sub>i\<^sub>+\<^sub>1 - t\<^sub>i)\<close>, the quotient truncated toward zero
  (\<open>sdiv\<close>) and no operation overflowing. On the curve 0 C \<rightarrow> 20%, 100 C \<rightarrow> 100% the
  samples 50 and 33 give 60 and 46.
\<close>

theorem interpolateFanSpeed_piecewise:
  assumes "2 \<le> length cv" and "validateCurvePoints cv = None"
    and "sorted (map Temperature cv)" and "distinct (map Temperature cv)"
  shows "(T \<le> Temperature (cv ! 0) \<longrightarrow> interpolateFanSpeed cv T = Inr (FanSpeed (cv ! 0)))
       \<and> (Temperature (cv ! (length cv - 1)) \<le> T \<longrightarrow>
            interpolateFanSpeed cv T = Inr (FanSpeed (cv ! (length cv - 1))))
       \<and> (\<forall>i. i + 1 < length cv \<and> Temperature (cv ! i) \<le> T \<and> T \<le> Temperature (cv ! (i + 1)) \<longrightarrow>
            interpolateFanSpeed cv T =
              Inr (FanSpeed (cv ! i) +
                   ((FanSpeed (cv ! (i + 1)) - FanSpeed (cv ! i)) * (T - Temperature (cv ! i)))
                     sdiv (Temperature (cv ! (i + 1)) - Temperature (cv ! i))))
       \<and> interpolateFanSpeed
             [\<lparr>Temperature = 0, FanSpeed = 20\<rparr>, \<lparr>Temperature = 100, FanSpeed = 100\<rparr>] 50 = Inr 60
       \<and> interpolateFanSpeed
             [\<lparr>Temperature = 0, FanSpeed = 20\<rparr>, \<lparr>Temperature = 100, FanSpeed = 100\<rparr>] 33 = Inr 46"
proof (intro conjI impI allI)
  have ne: "cv \<noteq> []" using assms(1) by auto
  have lt: "Temperature (cv ! 0) < Temperature (cv ! (length cv - 1))"
    using nth_Temperature_strict[OF assms(3,4), of 0 "length cv - 1"] assms(1) by simp
  show "interpolateFanSpeed cv T = Inr (FanSpeed (cv ! 0))" if "T \<le> Temperature (cv ! 0)"
    using that ne by (rule interpolate_below[rotated])
  show "interpolateFanSpeed cv T = Inr (FanSpeed (cv ! (length cv - 1)))"
    if "Temperature (cv ! (length cv - 1)) \<le> T"
    using that lt ne by (intro interpolate_above) auto
  show "interpolateFanSpeed cv T =
              Inr (FanSpeed (cv ! i) +
                   ((FanSpeed (cv ! (i + 1)) - FanSpeed (cv ! i)) * (T - Temperature (cv ! i)))
                     sdiv (Temperature (cv ! (i + 1)) - Temperature (cv ! i)))"
    if "i + 1 < length cv \<and> Temperature (cv ! i) \<le> T \<and> T \<le> Temperature (cv ! (i + 1))" for i
    using that interpolate_segment[OF assms(2,3,4), of i T] by blast
  show "interpolateFanSpeed
             [\<lparr>Temperature = 0, FanSpeed = 20\<rparr>, \<lparr>Temperature = 100, FanSpeed = 100\<rparr>] 50 = Inr 60"
    by (simp add: interpolateFanSpeed_def interpolateLoop.simps go_int_defs)
  show "interpolateFanSpeed
             [\<lparr>Temperature = 0, FanSpeed = 20\<rparr>, \<lparr>Temperature = 100, FanSpeed = 100\<rparr>] 33 = Inr 46"
    by (simp add: interpolateFanSpeed_def interpolateLoop.simps go_int_defs)
qed

text \<open>
  The theorem at a three-point curve with falling speeds and the sample 83: the product
  \<open>(20 - 40) * (83 - 50)\<close> is negative and its quotient by 50 is \<open>-13\<close>, not the floor
  \<open>-14\<close>.
\<close>

theorem interpolateFanSpeed_piecewise_witness:
  "interpolateFanSpeed
     [\<lparr>Temperature = 0, FanSpeed = 100\<rparr>, \<lparr>Temperature = 50, FanSpeed = 40\<rparr>,
      \<lparr>Temperature = 100, FanSpeed = 20\<rparr>] 83 = Inr (40 + ((20 - 40) * (83 - 50)) sdiv (100 - 50))
   \<and> interpolateFanSpeed
     [\<lparr>Temperature = 0, FanSpeed = 100\<rparr>, \<lparr>Temperature = 50, FanSpeed = 40\<rparr>,
      \<lparr>Temperature = 100, FanSpeed = 20\<rparr>] 83 = Inr 27"
proof -
  let ?cv = "[\<lparr>Temperature = 0, FanSpeed = 100\<rparr>, \<lparr>Temperature = 50, FanSpeed = 40\<rparr>,
      \<lparr>Temperature = 100, FanSpeed = 20\<rparr>]"
  have h: "2 \<le> length ?cv" "validateCurvePoints ?cv = None"
    "sorted (map Temperature ?cv)" "distinct (map Temperature ?cv)"
    by simp_all
  from interpolateFanSpeed_piecewise[OF h, of 83]
  have "\<forall>i. i + 1 < length ?cv \<and> Temperature (?cv ! i) \<le> 83 \<and> 83 \<le> Temperature (?cv ! (i + 1)) \<longrightarrow>
            interpolateFanSpeed ?cv 83 =
              Inr (FanSpeed (?cv ! i) +
                   ((FanSpeed (?cv ! (i + 1)) - FanSpeed (?cv ! i)) * (83 - Temperature (?cv ! i)))
                     sdiv (Temperature (?cv ! (i + 1)) - Temperature (?cv ! i)))"
    by blast
  from this[rule_format, of 1] show ?thesis
    by (simp add: signed_divide_int_def)
qed

section \<open>The interpolator at a curve point's temperature\<close>

text \<open>
  Claim C4, as the code has it. For a curve that passes validation and is sorted ascending
  by temperature, duplicates allowed, and a sample \<open>T\<close> equal to some point's temperature
  (\<open>p\<close> is the first such point in sorted order), the interpolator returns and its
  result is the speed of a point at that temperature: the last point of the curve when
  \<open>T\<close> is the last temperature and above the first one (the guard
  \<open>temp >= curve[len(curve)-1].Temperature\<close>), and \<open>p\<close> otherwise. No division by zero
  is reached: a segment of equal temperatures is always preceded by a matching one.
\<close>

theorem interpolateFanSpeed_exact_match:
  assumes len: "2 \<le> length cv" and v: "validateCurvePoints cv = None"
    and s: "sorted (map Temperature cv)"
    and f: "find (\<lambda>p. Temperature p = T) cv = Some p"
  shows "interpolateFanSpeed cv T =
           Inr (if Temperature (cv ! 0) < T \<and> T = Temperature (cv ! (length cv - 1))
                then FanSpeed (cv ! (length cv - 1)) else FanSpeed p)"
proof -
  have ne: "cv \<noteq> []" using len by auto
  from f obtain j where j: "j < length cv" "Temperature (cv ! j) = T" "p = cv ! j"
    and first: "\<forall>k<j. Temperature (cv ! k) \<noteq> T"
    unfolding find_Some_iff by blast
  have le_last: "T \<le> Temperature (cv ! (length cv - 1))"
    using nth_Temperature_mono[OF s, of j "length cv - 1"] j by simp
  consider (below) "T \<le> Temperature (cv ! 0)"
    | (top) "Temperature (cv ! 0) < T" "T = Temperature (cv ! (length cv - 1))"
    | (mid) "Temperature (cv ! 0) < T" "T < Temperature (cv ! (length cv - 1))"
    using le_last by linarith
  then show ?thesis
  proof cases
    case below
    have "j = 0"
    proof (rule ccontr)
      assume "j \<noteq> 0"
      then have "Temperature (cv ! 0) \<noteq> T" using first by simp
      moreover have "Temperature (cv ! 0) \<le> T"
        using nth_Temperature_mono[OF s, of 0 j] j by simp
      ultimately show False using below by simp
    qed
    with below j ne show ?thesis by (simp add: interpolate_below)
  next
    case top
    then show ?thesis using ne by (simp add: interpolate_above)
  next
    case mid
    have "j \<noteq> 0"
    proof
      assume "j = 0"
      with j(2) have "Temperature (cv ! 0) = T" by simp
      with mid(1) show False by simp
    qed
    then obtain k where k: "j = k + 1" by (cases j) auto
    have k1: "k + 1 < length cv" using j k by simp
    have "Temperature (cv ! k) \<le> T"
      using nth_Temperature_mono[OF s, of k j] j k by simp
    moreover have "Temperature (cv ! k) \<noteq> T" using first k by simp
    ultimately have ltk: "Temperature (cv ! k) < T" by simp
    have lo: "Temperature (cv ! k) \<le> T" and hi: "T \<le> Temperature (cv ! (k + 1))"
      and step: "Temperature (cv ! k) < Temperature (cv ! (k + 1))"
      using ltk j k by simp_all
    have nohit: "\<forall>i. 0 \<le> i \<and> i < k \<longrightarrow>
              \<not> (Temperature (cv ! i) \<le> T \<and> T \<le> Temperature (cv ! (i + 1)))"
    proof (intro allI impI)
      fix i assume "0 \<le> i \<and> i < k"
      then have "Temperature (cv ! (i + 1)) \<le> Temperature (cv ! k)"
        using nth_Temperature_mono[OF s, of "i + 1" k] k1 by simp
      with ltk show "\<not> (Temperature (cv ! i) \<le> T \<and> T \<le> Temperature (cv ! (i + 1)))"
        by simp
    qed
    have "interpolateFanSpeed cv T = interpolateLoop cv T 0"
      using mid ne by (simp add: interpolateFanSpeed_def)
    with interpolateLoop_skip[OF nohit _ k1] interpolateLoop_hit[OF v k1 lo hi step]
    have "interpolateFanSpeed cv T =
            Inr (FanSpeed (cv ! k) +
                ((FanSpeed (cv ! (k + 1)) - FanSpeed (cv ! k)) * (T - Temperature (cv ! k)))
                  sdiv (Temperature (cv ! (k + 1)) - Temperature (cv ! k)))"
      by simp
    also have "\<dots> = Inr (FanSpeed (cv ! j))"
      using step j(2) k by (simp add: sdiv_exact)
    finally show ?thesis using mid j by simp
  qed
qed

text \<open>The theorem at a curve with two points at 50 C: the first of them wins.\<close>

theorem interpolateFanSpeed_exact_match_witness:
  "interpolateFanSpeed
     [\<lparr>Temperature = 0, FanSpeed = 20\<rparr>, \<lparr>Temperature = 50, FanSpeed = 30\<rparr>,
      \<lparr>Temperature = 50, FanSpeed = 80\<rparr>, \<lparr>Temperature = 100, FanSpeed = 100\<rparr>] 50 = Inr 30"
proof -
  let ?cv = "[\<lparr>Temperature = 0, FanSpeed = 20\<rparr>, \<lparr>Temperature = 50, FanSpeed = 30\<rparr>,
      \<lparr>Temperature = 50, FanSpeed = 80\<rparr>, \<lparr>Temperature = 100, FanSpeed = 100\<rparr>]"
  have h: "2 \<le> length ?cv" "validateCurvePoints ?cv = None" "sorted (map Temperature ?cv)"
    "find (\<lambda>p. Temperature p = 50) ?cv = Some \<lparr>Temperature = 50, FanSpeed = 30\<rparr>"
    by simp_all
  from interpolateFanSpeed_exact_match[OF h] show ?thesis by simp
qed

text \<open>
  Claim C4 as stated fails where the duplicated temperature is the last one: on the sorted
  curve 0 C \<rightarrow> 20%, 100 C \<rightarrow> 50%, 100 C \<rightarrow> 100% the first point at 100 C has speed 50, and
  the interpolator returns 100.
\<close>

theorem interpolateFanSpeed_first_match_counterexample:
  "validateCurvePoints
     [\<lparr>Temperature = 0, FanSpeed = 20\<rparr>, \<lparr>Temperature = 100, FanSpeed = 50\<rparr>,
      \<lparr>Temperature = 100, FanSpeed = 100\<rparr>] = None
   \<and> sorted (map Temperature
     [\<lparr>Temperature = 0, FanSpeed = 20\<rparr>, \<lparr>Temperature = 100, FanSpeed = 50\<rparr>,
      \<lparr>Temperature = 100, FanSpeed = 100\<rparr>])
   \<and> find (\<lambda>p. Temperature p = 100)
     [\<lparr>Temperature = 0, FanSpeed = 20\<rparr>, \<lparr>Temperature = 100, FanSpeed = 50\<rparr>,
      \<lparr>Temperature = 100, FanSpeed = 100\<rparr>] = Some \<lparr>Temperature = 100, FanSpeed = 50\<rparr>
   \<and> interpolateFanSpeed
     [\<lparr>Temperature = 0, FanSpeed = 20\<rparr>, \<lparr>Temperature = 100, FanSpeed = 50\<rparr>,
      \<lparr>Temperature = 100, FanSpeed = 100\<rparr>] 100 = Inr 100"
  by (simp add: interpolateFanSpeed_def)



section \<open>Validation of overclock settings\<close>

text \<open>
  What the two validations accept. The Windows controller exempts a field that is zero
  from its range; the Linux controller exempts nothing.
\<close>

lemma if_Some_eq_None: "((if b then Some e else r) = None) = (\<not> b \<and> r = None)"
  by simp

lemma WindowsController_validateSettings_None_iff:
  "WindowsController_validateSettings (Some s) = None \<longleftrightarrow>
     (oc_CoreClockOffset s = 0 \<or> (- 500 \<le> oc_CoreClockOffset s \<and> oc_CoreClockOffset s \<le> 500))
   \<and> (oc_MemoryClockOffset s = 0 \<or> (- 1000 \<le> oc_MemoryClockOffset s \<and> oc_MemoryClockOffset s \<le> 1000))
   \<and> (oc_PowerLimit s = 0 \<or> (50 \<le> oc_PowerLimit s \<and> oc_PowerLimit s \<le> 150))
   \<and> (oc_TempLimit s = 0 \<or> (60 \<le> oc_TempLimit s \<and> oc_TempLimit s \<le> 95))
   \<and> (0 \<le> oc_FanSpeed s \<and> oc_FanSpeed s \<le> 100)
   \<and> (oc_VoltageOffset s = 0 \<or> (- 100 \<le> oc_VoltageOffset s \<and> oc_VoltageOffset s \<le> 100))"
  unfolding WindowsController_validateSettings_def option.case if_Some_eq_None
  by (simp add: not_less)

lemma LinuxController_validateSettings_None_iff:
  "LinuxController_validateSettings (Some s) = None \<longleftrightarrow>
     (- 500 \<le> oc_CoreClockOffset s \<and> oc_CoreClockOffset s \<le> 500)
   \<and> (- 1000 \<le> oc_MemoryClockOffset s \<and> oc_MemoryClockOffset s \<le> 1000)
   \<and> (50 \<le> oc_PowerLimit s \<and> oc_PowerLimit s \<le> 150)
   \<and> (60 \<le> oc_TempLimit s \<and> oc_TempLimit s \<le> 95)
   \<and> (0 \<le> oc_FanSpeed s \<and> oc_FanSpeed s \<le> 100)
   \<and> (- 100 \<le> oc_VoltageOffset s \<and> oc_VoltageOffset s \<le> 100)"
  unfolding LinuxController_validateSettings_def option.case if_Some_eq_None
  by (simp add: not_less)

text \<open>
  Claim C6 at the record the claim names (power limit 0, temperature limit 0, every offset
  0, all fields at their sentinel): the Linux controller's validation rejects it with the
  power limit's range error, where the Windows controller's validation, which checks a
  field only if it is set, accepts it.
\<close>

theorem LinuxController_validateSettings_rejects_sentinels:
  "LinuxController_validateSettings
     (Some \<lparr>oc_DeviceID = 0, oc_CoreClockOffset = 0, oc_MemoryClockOffset = 0, oc_PowerLimit = 0,
            oc_TempLimit = 0, oc_FanSpeed = 0, oc_VoltageOffset = 0\<rparr>)
     = Some (Error ''power limit must be between 50% and 150%'')
   \<and> WindowsController_validateSettings
     (Some \<lparr>oc_DeviceID = 0, oc_CoreClockOffset = 0, oc_MemoryClockOffset = 0, oc_PowerLimit = 0,
            oc_TempLimit = 0, oc_FanSpeed = 0, oc_VoltageOffset = 0\<rparr>) = None"
  by (simp add: LinuxController_validateSettings_def WindowsController_validateSettings_def)

section \<open>The profile store\<close>

lemma GetProfiles_loop_filter:
  "GetProfiles_loop env c fs (filter (\<lambda>e. de_Name e \<noteq> ''_current.json'') entries) profiles
     = GetProfiles_loop env c fs entries profiles"
  by (induction entries arbitrary: profiles) (simp_all add: Let_def split: sum.splits option.splits)

text \<open>
  Every profile \<open>GetProfiles\<close> lists was decoded from a file of the listing that is no
  directory, ends in \<open>.json\<close> and is not \<open>_current.json\<close>.
\<close>

lemma GetProfiles_loop_sources:
  assumes "p \<in> set (GetProfiles_loop env c fs entries profiles)"
  shows "p \<in> set profiles
         \<or> (\<exists>e \<in> set entries. \<not> de_IsDir e \<and> Ext (de_Name e) = ''.json''
               \<and> de_Name e \<noteq> ''_current.json''
               \<and> (\<exists>data. ReadFile env (filepath_Join env (profilesDir c) (de_Name e)) fs = Inr data
                     \<and> Unmarshal env data = Some p))"
  using assms
proof (induction entries arbitrary: profiles)
  case Nil
  then show ?case by simp
next
  case (Cons e0 rest)
  show ?case
  proof (cases "\<not> de_IsDir e0 \<and> Ext (de_Name e0) = ''.json'' \<and> de_Name e0 \<noteq> ''_current.json''")
    case False
    with Cons.prems have "p \<in> set (GetProfiles_loop env c fs rest profiles)" by auto
    from Cons.IH[OF this] show ?thesis by auto
  next
    case True
    show ?thesis
    proof (cases "ReadFile env (filepath_Join env (profilesDir c) (de_Name e0)) fs")
      case (Inl err)
      with True Cons.prems have "p \<in> set (GetProfiles_loop env c fs rest profiles)" by simp
      from Cons.IH[OF this] show ?thesis by auto
    next
      case (Inr data)
      show ?thesis
      proof (cases "Unmarshal env data")
        case None
        with True Inr Cons.prems have "p \<in> set (GetProfiles_loop env c fs rest profiles)" by simp
        from Cons.IH[OF this] show ?thesis by auto
      next
        case (Some p0)
        with True Inr Cons.prems have "p \<in> set (GetProfiles_loop env c fs rest (profiles @ [p0]))"
          by simp
        from Cons.IH[OF this] have "p \<in> set profiles \<or> p = p0
            \<or> (\<exists>e \<in> set rest. \<not> de_IsDir e \<and> Ext (de_Name e) = ''.json''
               \<and> de_Name e \<noteq> ''_current.json''
               \<and> (\<exists>data. ReadFile env (filepath_Join env (profilesDir c) (de_Name e)) fs = Inr data
                     \<and> Unmarshal env data = Some p))"
          by auto
        with True Inr Some show ?thesis by auto
      qed
    qed
  qed
qed

text \<open>
  A call of \<open>SaveProfile\<close> that succeeds has written one file, named after the profile.
\<close>

lemma SaveProfile_writes:
  assumes "SaveProfile v env c profile fs = (None, fs')"
  shows "\<exists>data. MarshalIndent env profile = Inr data
           \<and> fs' = fs(filepath_Join env (profilesDir c) (Name profile @ ''.json'') \<mapsto> data)"
  using assms
  by (auto simp: SaveProfile_def WriteFile_def Let_def
           split: if_splits option.splits sum.splits prod.splits)

text \<open>
  Claim C9 as the code has it. \<open>SaveProfile\<close> of either controller, on a profile whose
  name is empty or is the reserved \<open>_current\<close>, returns its validation error and leaves the
  files as they were. \<open>GetProfiles\<close> tells the reserved profile by the name of its file:
  for every store it computes its list from the directory's entries other than
  \<open>_current.json\<close>, so every profile it lists was decoded from another file; and in a
  store where every file of the listing holds the profile it is named after
  (\<open><name>.json\<close>, as \<open>SaveProfile\<close> writes them), no listed profile bears the reserved
  name.
\<close>

theorem SaveProfile_reserved_GetProfiles_hidden:
  "(Name profile = [] \<longrightarrow>
      LinuxController_SaveProfile env c profile fs = (Some (Error ''profile name cannot be empty''), fs)
    \<and> WindowsController_SaveProfile env c profile fs = (Some (Error ''profile name cannot be empty''), fs))
   \<and> (Name profile = ''_current'' \<longrightarrow>
      LinuxController_SaveProfile env c profile fs
        = (Some (Error (''profile name '' @ [CHR 0x27] @ ''_current'' @ [CHR 0x27] @ '' is reserved'')), fs)
    \<and> WindowsController_SaveProfile env c profile fs
        = (Some (Error (''profile name '' @ [CHR 0x27] @ ''_current'' @ [CHR 0x27] @ '' is reserved'')), fs))
   \<and> GetProfiles env c fs =
        (case ReadDir_res env fs (profilesDir c) of
           None \<Rightarrow> []
         | Some entries \<Rightarrow>
             GetProfiles_loop env c fs (filter (\<lambda>e. de_Name e \<noteq> ''_current.json'') entries) [])
   \<and> (\<forall>p \<in> set (GetProfiles env c fs).
         \<exists>entries e data.
           ReadDir_res env fs (profilesDir c) = Some entries \<and> e \<in> set entries
           \<and> de_Name e \<noteq> ''_current.json''
           \<and> ReadFile env (filepath_Join env (profilesDir c) (de_Name e)) fs = Inr data
           \<and> Unmarshal env data = Some p)
   \<and> ((\<forall>entries e data p.
          ReadDir_res env fs (profilesDir c) = Some entries \<and> e \<in> set entries
          \<and> ReadFile env (filepath_Join env (profilesDir c) (de_Name e)) fs = Inr data
          \<and> Unmarshal env data = Some p \<longrightarrow> de_Name e = Name p @ ''.json'')
        \<longrightarrow> ''_current'' \<notin> Name ` set (GetProfiles env c fs))"
proof -
  have src: "\<exists>entries e data.
           ReadDir_res env fs (profilesDir c) = Some entries \<and> e \<in> set entries
           \<and> de_Name e \<noteq> ''_current.json''
           \<and> ReadFile env (filepath_Join env (profilesDir c) (de_Name e)) fs = Inr data
           \<and> Unmarshal env data = Some p"
    if "p \<in> set (GetProfiles env c fs)" for p
  proof (cases "ReadDir_res env fs (profilesDir c)")
    case None
    with that show ?thesis by (simp add: GetProfiles_def)
  next
    case (Some entries)
    with that have "p \<in> set (GetProfiles_loop env c fs entries [])" by (simp add: GetProfiles_def)
    from GetProfiles_loop_sources[OF this] Some show ?thesis by auto
  qed
  have hidden: "''_current'' \<notin> Name ` set (GetProfiles env c fs)"
    if h: "\<forall>entries e data p.
          ReadDir_res env fs (profilesDir c) = Some entries \<and> e \<in> set entries
          \<and> ReadFile env (filepath_Join env (profilesDir c) (de_Name e)) fs = Inr data
          \<and> Unmarshal env data = Some p \<longrightarrow> de_Name e = Name p @ ''.json''"
  proof
    assume "''_current'' \<in> Name ` set (GetProfiles env c fs)"
    then obtain p where p: "p \<in> set (GetProfiles env c fs)" "Name p = ''_current''" by auto
    from src[OF p(1)] obtain entries e data where
      e: "ReadDir_res env fs (profilesDir c) = Some entries" "e \<in> set entries"
         "de_Name e \<noteq> ''_current.json''"
         "ReadFile env (filepath_Join env (profilesDir c) (de_Name e)) fs = Inr data"
         "Unmarshal env data = Some p"
      by blast
    from h e(1,2,4,5) have "de_Name e = Name p @ ''.json''" by blast
    with p(2) e(3) show False by simp
  qed
  have empty: "LinuxController_SaveProfile env c profile fs = (Some (Error ''profile name cannot be empty''), fs)
    \<and> WindowsController_SaveProfile env c profile fs = (Some (Error ''profile name cannot be empty''), fs)"
    if "Name profile = []"
    using that
    by (simp add: LinuxController_SaveProfile_def WindowsController_SaveProfile_def SaveProfile_def)
  have reserved: "LinuxController_SaveProfile env c profile fs
        = (Some (Error (''profile name '' @ [CHR 0x27] @ ''_current'' @ [CHR 0x27] @ '' is reserved'')), fs)
    \<and> WindowsController_SaveProfile env c profile fs
        = (Some (Error (''profile name '' @ [CHR 0x27] @ ''_current'' @ [CHR 0x27] @ '' is reserved'')), fs)"
    if "Name profile = ''_current''"
    using that
    by (simp add: LinuxController_SaveProfile_def WindowsController_SaveProfile_def SaveProfile_def)
  have flt: "GetProfiles env c fs =
        (case ReadDir_res env fs (profilesDir c) of
           None \<Rightarrow> []
         | Some entries \<Rightarrow>
             GetProfiles_loop env c fs (filter (\<lambda>e. de_Name e \<noteq> ''_current.json'') entries) [])"
    by (simp add: GetProfiles_def GetProfiles_loop_filter split: option.splits)
  from empty reserved flt src hidden show ?thesis by blast
qed

text \<open>
  The theorem on a store of two files, the reserved one and a saved profile, each holding
  the profile it is named after.
\<close>

theorem SaveProfile_reserved_GetProfiles_hidden_witness:
  "LinuxController_SaveProfile
      (quiet_env [\<lparr>de_Name = ''_current.json'', de_IsDir = False\<rparr>,
                  \<lparr>de_Name = ''quiet.json'', de_IsDir = False\<rparr>] 0)
      \<lparr>profilesDir = ''/p''\<rparr> \<lparr>Name = ''_current'', Settings = None\<rparr>
      [''/p/_current.json'' \<mapsto> ''_current'', ''/p/quiet.json'' \<mapsto> ''quiet'']
     = (Some (Error (''profile name '' @ [CHR 0x27] @ ''_current'' @ [CHR 0x27] @ '' is reserved'')),
        [''/p/_current.json'' \<mapsto> ''_current'', ''/p/quiet.json'' \<mapsto> ''quiet''])
   \<and> GetProfiles
      (quiet_env [\<lparr>de_Name = ''_current.json'', de_IsDir = False\<rparr>,
                  \<lparr>de_Name = ''quiet.json'', de_IsDir = False\<rparr>] 0)
      \<lparr>profilesDir = ''/p''\<rparr>
      [''/p/_current.json'' \<mapsto> ''_current'', ''/p/quiet.json'' \<mapsto> ''quiet'']
     = [\<lparr>Name = ''quiet'', Settings = None\<rparr>]
   \<and> ''_current'' \<notin> Name ` set (GetProfiles
      (quiet_env [\<lparr>de_Name = ''_current.json'', de_IsDir = False\<rparr>,
                  \<lparr>de_Name = ''quiet.json'', de_IsDir = False\<rparr>] 0)
      \<lparr>profilesDir = ''/p''\<rparr>
      [''/p/_current.json'' \<mapsto> ''_current'', ''/p/quiet.json'' \<mapsto> ''quiet''])"
proof -
  let ?env = "quiet_env [\<lparr>de_Name = ''_current.json'', de_IsDir = False\<rparr>,
                  \<lparr>de_Name = ''quiet.json'', de_IsDir = False\<rparr>] 0"
  let ?c = "\<lparr>profilesDir = ''/p''\<rparr>"
  let ?fs = "[''/p/_current.json'' \<mapsto> ''_current'', ''/p/quiet.json'' \<mapsto> ''quiet'']"
  let ?profile = "\<lparr>Name = ''_current'', Settings = None\<rparr>"
  note t = SaveProfile_reserved_GetProfiles_hidden[of ?profile ?env ?c ?fs]
  have n: "Name ?profile = ''_current''" by simp
  have l: "GetProfiles ?env ?c ?fs = [\<lparr>Name = ''quiet'', Settings = None\<rparr>]"
    by (simp add: GetProfiles_def quiet_env_def Ext_def ReadFile_def)
  have h: "\<forall>entries e data p.
          ReadDir_res ?env ?fs (profilesDir ?c) = Some entries \<and> e \<in> set entries
          \<and> ReadFile ?env (filepath_Join ?env (profilesDir ?c) (de_Name e)) ?fs = Inr data
          \<and> Unmarshal ?env data = Some p \<longrightarrow> de_Name e = Name p @ ''.json''"
    by (auto simp: quiet_env_def ReadFile_def)
  from t n h l show ?thesis by blast
qed

text \<open>
  The claim as it stands fails on a store that holds, in a file of another name, a profile
  named \<open>_current\<close>: \<open>GetProfiles\<close> lists it.
\<close>

theorem GetProfiles_lists_current_counterexample:
  "GetProfiles
     ((quiet_env [\<lparr>de_Name = ''liar.json'', de_IsDir = False\<rparr>] 0)
        \<lparr>Unmarshal := (\<lambda>data. if data = ''{\"name\":\"_current\",\"settings\":null}''
                              then Some \<lparr>Name = ''_current'', Settings = None\<rparr> else None)\<rparr>)
     \<lparr>profilesDir = ''/p''\<rparr>
     [''/p/liar.json'' \<mapsto> ''{\"name\":\"_current\",\"settings\":null}'']
   = [\<lparr>Name = ''_current'', Settings = None\<rparr>]"
  by (simp add: GetProfiles_def quiet_env_def Ext_def ReadFile_def)
section \<open>Results of applying overclock settings\<close>

lemmas fmt_simps = fmt_d_def fmt_plus_d_def digits10.simps

text \<open>
  Each block of the NVIDIA path keeps \<open>Success\<close> equal to ``no errors''; each block of
  the AMD path, which only warns, keeps \<open>Success\<close> true and \<open>Errors\<close> empty.
\<close>

lemma nvidia_applyCoreClockOffset_consistent:
  "(Success (fst st) \<longleftrightarrow> Errors (fst st) = []) \<Longrightarrow>
   (Success (fst (nvidia_applyCoreClockOffset env d s st))
      \<longleftrightarrow> Errors (fst (nvidia_applyCoreClockOffset env d s st)) = [])"
  by (cases st) (auto simp: nvidia_applyCoreClockOffset_def Run_def split: option.splits)

lemma nvidia_applyMemoryClockOffset_consistent:
  "(Success (fst st) \<longleftrightarrow> Errors (fst st) = []) \<Longrightarrow>
   (Success (fst (nvidia_applyMemoryClockOffset env d s st))
      \<longleftrightarrow> Errors (fst (nvidia_applyMemoryClockOffset env d s st)) = [])"
  by (cases st) (auto simp: nvidia_applyMemoryClockOffset_def Run_def split: option.splits)

lemma nvidia_applyPowerLimit_consistent:
  "(Success (fst st) \<longleftrightarrow> Errors (fst st) = []) \<Longrightarrow>
   (Success (fst (nvidia_applyPowerLimit env d s st))
      \<longleftrightarrow> Errors (fst (nvidia_applyPowerLimit env d s st)) = [])"
  by (cases st) (auto simp: nvidia_applyPowerLimit_def Run_def split: option.splits)

lemma nvidia_applyFanSpeed_consistent:
  "(Success (fst st) \<longleftrightarrow> Errors (fst st) = []) \<Longrightarrow>
   (Success (fst (nvidia_applyFanSpeed env d s st))
      \<longleftrightarrow> Errors (fst (nvidia_applyFanSpeed env d s st)) = [])"
  by (cases st) (auto simp: nvidia_applyFanSpeed_def Run_def split: option.splits)

lemma setNvidiaOverclockSettings_consistent:
  assumes "setNvidiaOverclockSettings env d s es = (Inr r, es')"
  shows "Success r \<longleftrightarrow> Errors r = []"
proof -
  define st0 where "st0 = (\<lparr>Success = True, Applied = [], Warnings = [], Errors = []\<rparr>,
                            es @ [Ran [''nvidia-smi'', ''-i'', fmt_d d]])"
  define ps where "ps = nvidia_applyFanSpeed env d s
                     (nvidia_applyPowerLimit env d s
                       (nvidia_applyMemoryClockOffset env d s
                         (nvidia_applyCoreClockOffset env d s st0)))"
  have "Success (fst st0) \<longleftrightarrow> Errors (fst st0) = []"
    by (simp add: st0_def)
  then have c: "Success (fst ps) \<longleftrightarrow> Errors (fst ps) = []"
    unfolding ps_def
    by (intro nvidia_applyFanSpeed_consistent[OF nvidia_applyPowerLimit_consistent[OF
          nvidia_applyMemoryClockOffset_consistent[OF nvidia_applyCoreClockOffset_consistent]]])
  from assms have "r = (if length (Errors (fst ps)) = 0 \<and> length (Warnings (fst ps)) > 0
                        then (fst ps)\<lparr>Success := True\<rparr> else fst ps)"
    by (auto simp: setNvidiaOverclockSettings_def Run_def Let_def ps_def st0_def
             split: option.splits prod.splits)
  with c show ?thesis by auto
qed

lemma amd_setManual_clean:
  "Success (fst st) \<and> Errors (fst st) = [] \<Longrightarrow>
   Success (fst (amd_setManual env p st)) \<and> Errors (fst (amd_setManual env p st)) = []"
  by (cases st) (auto simp: amd_setManual_def WriteSys_def Let_def split: option.splits)

lemma amd_applyClock_clean:
  "Success (fst st) \<and> Errors (fst st) = [] \<Longrightarrow>
   Success (fst (amd_applyClock env p off f a b st))
     \<and> Errors (fst (amd_applyClock env p off f a b st)) = []"
  by (cases st) (auto simp: amd_applyClock_def WriteSys_def ReadSys_def Let_def
                     split: option.splits sum.splits)

lemma amd_applyPowerLimit_clean:
  "Success (fst st) \<and> Errors (fst st) = [] \<Longrightarrow>
   Success (fst (amd_applyPowerLimit s st)) \<and> Errors (fst (amd_applyPowerLimit s st)) = []"
  by (cases st) (auto simp: amd_applyPowerLimit_def)

lemma amd_applyFanSpeed_clean:
  "Success (fst st) \<and> Errors (fst st) = [] \<Longrightarrow> amd_applyFanSpeed env p s st = (Inr r, es')
     \<Longrightarrow> Success r \<and> Errors r = []"
  by (cases st) (auto simp: amd_applyFanSpeed_def WriteSys_def Let_def go_quo_def
                     split: option.splits sum.splits if_splits)

lemma setAMDOverclockSettings_clean:
  assumes "setAMDOverclockSettings env d s es = (Inr r, es')"
  shows "Success r \<and> Errors r = []"
proof -
  define p where "p = findAMDCardPath env d"
  define st0 where "st0 = (\<lparr>Success = True, Applied = [], Warnings = [], Errors = []\<rparr>, es)"
  define st where "st = amd_applyPowerLimit s
                     (amd_applyClock env p (gpu_MemoryClockOffset s) ''pp_dpm_mclk''
                        ''failed to set memory clock state (may need root): ''
                        ''set memory to performance state ''
                       (amd_applyClock env p (gpu_CoreClockOffset s) ''pp_dpm_sclk''
                          ''failed to set GPU clock state (may need root): ''
                          ''set GPU to performance state ''
                         (amd_setManual env p st0)))"
  have "Success (fst st0) \<and> Errors (fst st0) = []"
    by (simp add: st0_def)
  then have c: "Success (fst st) \<and> Errors (fst st) = []"
    unfolding st_def
    by (intro amd_applyPowerLimit_clean[OF amd_applyClock_clean[OF amd_applyClock_clean[OF
          amd_setManual_clean]]])
  from assms obtain r' where f: "amd_applyFanSpeed env p s st = (Inr r', es')"
    and r: "r = (if length (Applied r') = 0 \<and> length (Warnings r') > 0
                 then r'\<lparr>Warnings := Warnings r'
                        @ [''AMD GPU overclocking may require root privileges or ''
                           @ ''additional driver setup'']\<rparr>
                 else r')"
    by (auto simp: setAMDOverclockSettings_def Let_def p_def st_def st0_def
             split: if_splits prod.splits sum.splits)
  from amd_applyFanSpeed_clean[OF c f] r show ?thesis
    by auto
qed

lemma SetOverclockSettings_consistent:
  assumes "SetOverclockSettings env d s es = (Inr r, es')"
  shows "Success r \<longleftrightarrow> Errors r = []"
  using assms setNvidiaOverclockSettings_consistent[of env d s es r es']
    setAMDOverclockSettings_clean[of env d s es r es']
  by (auto simp: SetOverclockSettings_def Let_def split: sum.splits if_splits)

lemma WindowsReader_SetOverclockSettings_consistent:
  assumes "WindowsReader_SetOverclockSettings env c d s st = (Inr r, st')"
  shows "Success r \<longleftrightarrow> Errors r = []"
  using assms
  by (auto simp: WindowsReader_SetOverclockSettings_def Let_def
           split: prod.splits option.splits error.splits)

lemma setNvidiaOverclockSettings_partial:
  assumes dev: "Run_err env [''nvidia-smi'', ''-i'', fmt_d d] = None"
    and core: "gpu_CoreClockOffset s \<noteq> 0"
      "Run_err env [''nvidia-settings'', ''-a'',
          ''[gpu:'' @ fmt_d d @ '']/GPUGraphicsClockOffset[3]='' @ fmt_d (gpu_CoreClockOffset s)] = None"
    and mem: "gpu_MemoryClockOffset s \<noteq> 0"
      "Run_err env [''nvidia-settings'', ''-a'',
          ''[gpu:'' @ fmt_d d @ '']/GPUMemoryTransferRateOffset[3]=''
            @ fmt_d (gpu_MemoryClockOffset s)] = None"
    and pow: "gpu_PowerLimit s > 0"
      "Run_err env [''nvidia-smi'', ''-i'', fmt_d d, ''-pl'', fmt_d (gpu_PowerLimit s)] = Some err"
      "Contains err ''Insufficient permissions'' \<or> Contains err ''permission denied''
         \<or> Contains err ''Operation not permitted''"
    and fan: "gpu_FanSpeed s \<le> 0"
  shows "\<exists>r es'. setNvidiaOverclockSettings env d s es = (Inr r, es')
           \<and> Success r \<and> length (Applied r) = 2 \<and> length (Warnings r) = 1 \<and> Errors r = []
           \<and> Warnings r = [''power limit setting requires root privileges (requested: ''
                              @ fmt_d (gpu_PowerLimit s) @ ''%)'']"
  using assms
  by (auto simp: setNvidiaOverclockSettings_def nvidia_applyCoreClockOffset_def
        nvidia_applyMemoryClockOffset_def nvidia_applyPowerLimit_def nvidia_applyFanSpeed_def
        Run_def Let_def)

text \<open>
  Claim C5. Every \<open>OverclockResult\<close> that applying settings returns, on Linux (NVIDIA and
  AMD, through the dispatch) and on Windows, has \<open>Success\<close> false exactly when \<open>Errors\<close>
  is not empty. On the NVIDIA path, when the device check and the commands for the core
  and memory clock offsets succeed, the power limit command fails with an error the code
  recognises as a permission failure, and no fan speed is configured, the result has
  \<open>Success\<close> true, two entries in \<open>Applied\<close>, the one warning about root privileges
  and no errors.
\<close>

theorem OverclockResult_success_iff_no_errors:
  "(SetOverclockSettings env deviceID settings es = (Inr r, es')
      \<longrightarrow> (\<not> Success r \<longleftrightarrow> Errors r \<noteq> []))
   \<and> (WindowsReader_SetOverclockSettings env c deviceID settings st = (Inr r, st')
      \<longrightarrow> (\<not> Success r \<longleftrightarrow> Errors r \<noteq> []))
   \<and> (Run_err env [''nvidia-smi'', ''-i'', fmt_d deviceID] = None
        \<and> gpu_CoreClockOffset settings \<noteq> 0
        \<and> Run_err env [''nvidia-settings'', ''-a'',
              ''[gpu:'' @ fmt_d deviceID @ '']/GPUGraphicsClockOffset[3]=''
                @ fmt_d (gpu_CoreClockOffset settings)] = None
        \<and> gpu_MemoryClockOffset settings \<noteq> 0
        \<and> Run_err env [''nvidia-settings'', ''-a'',
              ''[gpu:'' @ fmt_d deviceID @ '']/GPUMemoryTransferRateOffset[3]=''
                @ fmt_d (gpu_MemoryClockOffset settings)] = None
        \<and> gpu_PowerLimit settings > 0
        \<and> Run_err env [''nvidia-smi'', ''-i'', fmt_d deviceID,
              ''-pl'', fmt_d (gpu_PowerLimit settings)] = Some err
        \<and> (Contains err ''Insufficient permissions'' \<or> Contains err ''permission denied''
             \<or> Contains err ''Operation not permitted'')
        \<and> gpu_FanSpeed settings \<le> 0
      \<longrightarrow> (\<exists>r es'. setNvidiaOverclockSettings env deviceID settings es = (Inr r, es')
             \<and> Success r \<and> length (Applied r) = 2 \<and> length (Warnings r) = 1
             \<and> Errors r = []
             \<and> Warnings r = [''power limit setting requires root privileges (requested: ''
                                @ fmt_d (gpu_PowerLimit settings) @ ''%)'']))"
proof (intro conjI impI)
  assume "SetOverclockSettings env deviceID settings es = (Inr r, es')"
  from SetOverclockSettings_consistent[OF this] show "\<not> Success r \<longleftrightarrow> Errors r \<noteq> []"
    by simp
next
  assume "WindowsReader_SetOverclockSettings env c deviceID settings st = (Inr r, st')"
  from WindowsReader_SetOverclockSettings_consistent[OF this]
  show "\<not> Success r \<longleftrightarrow> Errors r \<noteq> []"
    by simp
next
  assume "Run_err env [''nvidia-smi'', ''-i'', fmt_d deviceID] = None
        \<and> gpu_CoreClockOffset settings \<noteq> 0
        \<and> Run_err env [''nvidia-settings'', ''-a'',
              ''[gpu:'' @ fmt_d deviceID @ '']/GPUGraphicsClockOffset[3]=''
                @ fmt_d (gpu_CoreClockOffset settings)] = None
        \<and> gpu_MemoryClockOffset settings \<noteq> 0
        \<and> Run_err env [''nvidia-settings'', ''-a'',
              ''[gpu:'' @ fmt_d deviceID @ '']/GPUMemoryTransferRateOffset[3]=''
                @ fmt_d (gpu_MemoryClockOffset settings)] = None
        \<and> gpu_PowerLimit settings > 0
        \<and> Run_err env [''nvidia-smi'', ''-i'', fmt_d deviceID,
              ''-pl'', fmt_d (gpu_PowerLimit settings)] = Some err
        \<and> (Contains err ''Insufficient permissions'' \<or> Contains err ''permission denied''
             \<or> Contains err ''Operation not permitted'')
        \<and> gpu_FanSpeed settings \<le> 0"
  then show "\<exists>r es'. setNvidiaOverclockSettings env deviceID settings es = (Inr r, es')
             \<and> Success r \<and> length (Applied r) = 2 \<and> length (Warnings r) = 1
             \<and> Errors r = []
             \<and> Warnings r = [''power limit setting requires root privileges (requested: ''
                                @ fmt_d (gpu_PowerLimit settings) @ ''%)'']"
    using setNvidiaOverclockSettings_partial[of env deviceID settings err es] by blast
qed

text \<open>
  The theorem on one NVIDIA GPU: a request whose power limit command is refused for lack
  of permission, and a request whose fan command fails, which gives a result with an
  error and \<open>Success\<close> false.
\<close>

theorem OverclockResult_success_iff_no_errors_witness:
  "(\<exists>r es'. setNvidiaOverclockSettings
        ((quiet_env [] 1)\<lparr>Run_err := (\<lambda>argv. if argv = [''nvidia-smi'', ''-i'', ''0'', ''-pl'', ''120'']
                                              then Some ''fork/exec: permission denied'' else None)\<rparr>)
        0 \<lparr>gpu_CoreClockOffset = 100, gpu_MemoryClockOffset = 500, gpu_PowerLimit = 120,
           gpu_FanSpeed = 0\<rparr> [] = (Inr r, es')
      \<and> Success r \<and> length (Applied r) = 2 \<and> length (Warnings r) = 1 \<and> Errors r = [])
   \<and> (\<not> Success \<lparr>Success = False, Applied = [''core clock offset: +100 MHz''], Warnings = [],
                    Errors = [''failed to set fan speed: exit status 1'']\<rparr>
        \<longleftrightarrow> Errors \<lparr>Success = False, Applied = [''core clock offset: +100 MHz''], Warnings = [],
                    Errors = [''failed to set fan speed: exit status 1'']\<rparr> \<noteq> [])
   \<and> SetOverclockSettings
        ((quiet_env [] 1)\<lparr>Run_err := (\<lambda>argv. if hd argv = ''nvidia-settings'' \<and> length argv = 5
                                              then Some ''exit status 1'' else None)\<rparr>)
        0 \<lparr>gpu_CoreClockOffset = 100, gpu_MemoryClockOffset = 0, gpu_PowerLimit = 0,
           gpu_FanSpeed = 80\<rparr> []
      = (Inr \<lparr>Success = False, Applied = [''core clock offset: +100 MHz''], Warnings = [],
              Errors = [''failed to set fan speed: exit status 1'']\<rparr>,
         [Ran [''nvidia-smi'', ''-i'', ''0''],
          Ran [''nvidia-settings'', ''-a'', ''[gpu:0]/GPUGraphicsClockOffset[3]=100''],
          Ran [''nvidia-settings'', ''-a'', ''[gpu:0]/GPUFanControlState=1'',
               ''-a'', ''[fan:0]/GPUTargetFanSpeed=80'']])"
proof -
  let ?env1 = "(quiet_env [] 1)\<lparr>Run_err := (\<lambda>argv. if argv = [''nvidia-smi'', ''-i'', ''0'', ''-pl'', ''120'']
                                              then Some ''fork/exec: permission denied'' else None)\<rparr>"
  let ?s1 = "\<lparr>gpu_CoreClockOffset = 100, gpu_MemoryClockOffset = 500, gpu_PowerLimit = 120,
           gpu_FanSpeed = 0\<rparr>"
  let ?env2 = "(quiet_env [] 1)\<lparr>Run_err := (\<lambda>argv. if hd argv = ''nvidia-settings'' \<and> length argv = 5
                                              then Some ''exit status 1'' else None)\<rparr>"
  let ?s2 = "\<lparr>gpu_CoreClockOffset = 100, gpu_MemoryClockOffset = 0, gpu_PowerLimit = 0,
           gpu_FanSpeed = 80\<rparr>"
  let ?r2 = "\<lparr>Success = False, Applied = [''core clock offset: +100 MHz''], Warnings = [],
              Errors = [''failed to set fan speed: exit status 1'']\<rparr>"
  let ?es2 = "[Ran [''nvidia-smi'', ''-i'', ''0''],
          Ran [''nvidia-settings'', ''-a'', ''[gpu:0]/GPUGraphicsClockOffset[3]=100''],
          Ran [''nvidia-settings'', ''-a'', ''[gpu:0]/GPUFanControlState=1'',
               ''-a'', ''[fan:0]/GPUTargetFanSpeed=80'']]"
  have run2: "SetOverclockSettings ?env2 0 ?s2 [] = (Inr ?r2, ?es2)"
    by (simp add: SetOverclockSettings_def setNvidiaOverclockSettings_def quiet_env_def
          nvidia_applyCoreClockOffset_def nvidia_applyMemoryClockOffset_def
          nvidia_applyPowerLimit_def nvidia_applyFanSpeed_def Run_def fmt_simps)
  have h1: "Run_err ?env1 [''nvidia-smi'', ''-i'', fmt_d 0] = None
        \<and> gpu_CoreClockOffset ?s1 \<noteq> 0
        \<and> Run_err ?env1 [''nvidia-settings'', ''-a'',
              ''[gpu:'' @ fmt_d 0 @ '']/GPUGraphicsClockOffset[3]=''
                @ fmt_d (gpu_CoreClockOffset ?s1)] = None
        \<and> gpu_MemoryClockOffset ?s1 \<noteq> 0
        \<and> Run_err ?env1 [''nvidia-settings'', ''-a'',
              ''[gpu:'' @ fmt_d 0 @ '']/GPUMemoryTransferRateOffset[3]=''
                @ fmt_d (gpu_MemoryClockOffset ?s1)] = None
        \<and> gpu_PowerLimit ?s1 > 0
        \<and> Run_err ?env1 [''nvidia-smi'', ''-i'', fmt_d 0,
              ''-pl'', fmt_d (gpu_PowerLimit ?s1)] = Some ''fork/exec: permission denied''
        \<and> (Contains ''fork/exec: permission denied'' ''Insufficient permissions''
             \<or> Contains ''fork/exec: permission denied'' ''permission denied''
             \<or> Contains ''fork/exec: permission denied'' ''Operation not permitted'')
        \<and> gpu_FanSpeed ?s1 \<le> 0"
    by (simp add: quiet_env_def fmt_simps)
  from OverclockResult_success_iff_no_errors[of ?env2 0 ?s2 "[]" ?r2 ?es2] run2
  have a: "\<not> Success ?r2 \<longleftrightarrow> Errors ?r2 \<noteq> []" by blast
  from OverclockResult_success_iff_no_errors[of ?env1 0 ?s1 "[]" _ _ _ _ _ "''fork/exec: permission denied''"] h1
  have b: "\<exists>r es'. setNvidiaOverclockSettings ?env1 0 ?s1 [] = (Inr r, es')
      \<and> Success r \<and> length (Applied r) = 2 \<and> length (Warnings r) = 1 \<and> Errors r = []"
    by blast
  from a b run2 show ?thesis by blast
qed

section \<open>Settings out of range\<close>

text \<open>
  Claim C2 at the claim's own input, on Linux: with one NVIDIA GPU and every command
  succeeding, a core clock offset of 10000 is not refused. \<open>SetOverclockSettings\<close> runs
  \<open>nvidia-settings\<close> with the offset and reports it as applied, with \<open>Success\<close> true.
\<close>

theorem SetOverclockSettings_applies_out_of_range:
  "SetOverclockSettings (quiet_env [] 1) 0
     \<lparr>gpu_CoreClockOffset = 10000, gpu_MemoryClockOffset = 0, gpu_PowerLimit = 0, gpu_FanSpeed = 0\<rparr> []
   = (Inr \<lparr>Success = True, Applied = [''core clock offset: +10000 MHz''], Warnings = [],
           Errors = []\<rparr>,
      [Ran [''nvidia-smi'', ''-i'', ''0''],
       Ran [''nvidia-settings'', ''-a'', ''[gpu:0]/GPUGraphicsClockOffset[3]=10000'']])"
  by (simp add: SetOverclockSettings_def setNvidiaOverclockSettings_def quiet_env_def
        nvidia_applyCoreClockOffset_def nvidia_applyMemoryClockOffset_def
        nvidia_applyPowerLimit_def nvidia_applyFanSpeed_def Run_def fmt_simps)

text \<open>
  The Windows reader, which goes through the overclock controller's validation, refuses
  the same request before anything is run or written; the refusal is the single entry
  of \<open>Errors\<close> in a result with \<open>Success\<close> false.
\<close>

lemma WindowsReader_SetOverclockSettings_out_of_range:
  "WindowsReader_SetOverclockSettings env c deviceID
     \<lparr>gpu_CoreClockOffset = 10000, gpu_MemoryClockOffset = 0, gpu_PowerLimit = 0, gpu_FanSpeed = 0\<rparr> st
   = (Inr \<lparr>Success = False, Applied = [], Warnings = [],
           Errors = [''invalid settings: core clock offset must be between -500 and +500 MHz'']\<rparr>,
      st)"
  by (simp add: WindowsReader_SetOverclockSettings_def WindowsController_SetSettings_def
        WindowsController_validateSettings_def errMsg_def)

section \<open>The fan controller: the invariant of its states\<close>

lemma heap_touch_curve [simp]:
  "curve (h[a := (h ! a)\<lparr>lastTemp := t\<rparr>] ! b) = curve (h ! b)"
proof (cases "a < length h")
  case True
  then show ?thesis by (simp add: nth_list_update)
next
  case False
  then show ?thesis by (simp add: list_update_beyond)
qed

lemma heap_touch_isActive [simp]:
  "isActive (h[a := (h ! a)\<lparr>lastTemp := t\<rparr>] ! b) = isActive (h ! b)"
proof (cases "a < length h")
  case True
  then show ?thesis by (simp add: nth_list_update)
next
  case False
  then show ?thesis by (simp add: list_update_beyond)
qed

lemma heap_touch_stopChannel [simp]:
  "stopChannel (h[a := (h ! a)\<lparr>lastTemp := t\<rparr>] ! b) = stopChannel (h ! b)"
proof (cases "a < length h")
  case True
  then show ?thesis by (simp add: nth_list_update)
next
  case False
  then show ?thesis by (simp add: list_update_beyond)
qed



lemma wf_stateD:
  assumes "wf c" "curveStates c f = Some a"
  shows "a < length (heap c)" "isActive (heap c ! a)" "stopChannel (heap c ! a) = ChanOpen"
    "0 \<le> f" "f < int (length (pwmPaths c))"
    "\<lparr>g_fanID = f, g_curve = curve (heap c ! a), g_state = a\<rparr> \<in> set (goroutines c)"
  using assms unfolding wf_def by blast+







lemma heap_close_curve [simp]:
  "curve (h[a := (h ! a)\<lparr>isActive := False, stopChannel := ChanClosed\<rparr>] ! b) = curve (h ! b)"
proof (cases "a < length h")
  case True
  then show ?thesis by (simp add: nth_list_update)
next
  case False
  then show ?thesis by (simp add: list_update_beyond)
qed






text \<open>What \<open>sort.Slice\<close> leaves: a sorted rearrangement of the curve.\<close>

lemma sort_Slice_mset: "mset (sort_Slice env cv) = mset cv"
  by (simp add: sort_Slice_def Let_def)

lemma sort_Slice_sorted: "sorted (map Temperature (sort_Slice env cv))"
  by (simp add: sort_Slice_def Let_def)

lemma sort_Slice_set: "set (sort_Slice env cv) = set cv"
  using sort_Slice_mset[of env cv] by (rule mset_eq_setD)



lemma checkWritePermissions_two:
  "checkWritePermissions env [p, q] es =
     (case Stat_err env p of
        Some err \<Rightarrow> (Some (Error (''path '' @ p @ '' not accessible: '' @ err)), es @ [Statted p])
      | None \<Rightarrow>
          (case OpenFile_err env p of
             Some err \<Rightarrow>
               (Some (Error (''no write permission for '' @ p
                  @ '' (try running as root or add user to appropriate group): '' @ err)),
                es @ [Statted p, Opened p])
           | None \<Rightarrow>
               (case Stat_err env q of
                  Some err \<Rightarrow>
                    (Some (Error (''path '' @ q @ '' not accessible: '' @ err)),
                     es @ [Statted p, Opened p, Statted q])
                | None \<Rightarrow>
                    (case OpenFile_err env q of
                       Some err \<Rightarrow>
                         (Some (Error (''no write permission for '' @ q
                            @ '' (try running as root or add user to appropriate group): '' @ err)),
                          es @ [Statted p, Opened p, Statted q, Opened q])
                     | None \<Rightarrow> (None, es @ [Statted p, Opened p, Statted q, Opened q])))))"
  by (simp split: option.splits)

text \<open>What a call of \<open>SetSettings\<close> can leave behind.\<close>

lemma SetSettings_cases:
  assumes "SetSettings env f s c = (r, c')"
  obtains (log_only) es where "c' = c\<lparr>effects := es\<rparr>" "Mode s = ModeCurve \<Longrightarrow> r \<noteq> None"
  | (stopped) es c1 where "0 \<le> f" "f < int (length (pwmPaths c))" "Mode s = ModeCurve"
      "stopFanCurve f (c\<lparr>effects := es\<rparr>) = Inr c1" "c' = c1 \<or> (\<exists>es1. c' = c1\<lparr>effects := es1\<rparr>)"
      "r \<noteq> None"
  | (started) es c1 es1 where "0 \<le> f" "f < int (length (pwmPaths c))" "Mode s = ModeCurve"
      "stopFanCurve f (c\<lparr>effects := es\<rparr>) = Inr c1"
      "c' = startFanCurve f (sort_Slice env (Curve s)) (c1\<lparr>effects := es1\<rparr>)"
      "r = None" "2 \<le> length (Curve s)"
      "validateCurvePoints (sort_Slice env (Curve s)) = None"
proof (cases "f \<ge> int (length (pwmPaths c)) \<or> f < 0")
  case True
  with assms have "c' = c\<lparr>effects := effects c\<rparr>" "r \<noteq> None"
    by (auto simp: SetSettings_def)
  then show ?thesis by (intro log_only)
next
  case False
  then have f: "0 \<le> f" "f < int (length (pwmPaths c))" by auto
  define pwmPath where "pwmPath = pwmPaths c ! nat f"
  obtain pe es where p: "checkWritePermissions env [pwmPath, pwmPath @ ''_enable''] (effects c) = (pe, es)"
    by (cases "checkWritePermissions env [pwmPath, pwmPath @ ''_enable''] (effects c)")
  show ?thesis
  proof (cases pe)
    case (Some e)
    with assms f p have "c' = c\<lparr>effects := es\<rparr>" "r \<noteq> None"
      by (auto simp: SetSettings_def Let_def pwmPath_def simp del: checkWritePermissions.simps)
    then show ?thesis by (intro log_only)
  next
    case None
    note perm = p[unfolded None]
    consider (fixed) "Mode s = ModeFixed" | (auto) "Mode s \<noteq> ModeFixed" "Mode s = ModeAuto"
      | (curve) "Mode s \<noteq> ModeFixed" "Mode s \<noteq> ModeAuto" "Mode s = ModeCurve"
      | (other) "Mode s \<noteq> ModeFixed" "Mode s \<noteq> ModeAuto" "Mode s \<noteq> ModeCurve"
      by blast
    then show ?thesis
    proof cases
      case fixed
      with assms f perm have "\<exists>es'. c' = c\<lparr>effects := es'\<rparr>"
        by (auto simp: SetSettings_def Let_def pwmPath_def WriteSys_def go_quo_def
                 simp del: checkWritePermissions.simps split: option.splits)
      moreover from fixed have "Mode s \<noteq> ModeCurve" by (simp add: ModeFixed_def ModeCurve_def)
      ultimately show ?thesis using log_only by blast
    next
      case auto
      with assms f perm have "\<exists>es'. c' = c\<lparr>effects := es'\<rparr>"
        by (auto simp: SetSettings_def Let_def pwmPath_def WriteSys_def
                 simp del: checkWritePermissions.simps split: option.splits)
      moreover from auto have "Mode s \<noteq> ModeCurve" by (simp add: ModeAuto_def ModeCurve_def)
      ultimately show ?thesis using log_only by blast
    next
      case other
      with assms f perm have "c' = c\<lparr>effects := es\<rparr>"
        by (simp add: SetSettings_def Let_def pwmPath_def del: checkWritePermissions.simps)
      with other(3) show ?thesis by (intro log_only) simp_all
    next
      case curve
      show ?thesis
      proof (cases "stopFanCurve f (c\<lparr>effects := es\<rparr>)")
        case (Inl e)
        with assms f perm curve have "c' = c\<lparr>effects := es\<rparr>" "r \<noteq> None"
          by (auto simp: SetSettings_def Let_def pwmPath_def simp del: checkWritePermissions.simps)
        then show ?thesis by (intro log_only)
      next
        case (Inr c1)
        from assms f perm curve Inr
        have r: "(r, c') =
          (if length (Curve s) < 2
             then (Some (Error ''fan curve must have at least 2 points''), c1)
           else
             (case validateCurvePoints (sort_Slice env (Curve s)) of
                Some e \<Rightarrow> (Some e, c1)
              | None \<Rightarrow>
                  (case WriteSys env (pwmPath @ ''_enable'') ''1'' (effects c1) of
                     (Some err, es1) \<Rightarrow>
                       (Some (Error (''failed to set manual mode for curve: '' @ err)),
                        c1\<lparr>effects := es1\<rparr>)
                   | (None, es1) \<Rightarrow>
                       (None, startFanCurve f (sort_Slice env (Curve s)) (c1\<lparr>effects := es1\<rparr>)))))"
          unfolding pwmPath_def
          by (simp add: SetSettings_def Let_def del: checkWritePermissions.simps cong: if_cong
                   split: if_splits)
        show ?thesis
        proof (cases "length (Curve s) < 2 \<or> validateCurvePoints (sort_Slice env (Curve s)) \<noteq> None")
          case True
          with r have "c' = c1" "r \<noteq> None" by (auto split: if_splits)
          with f curve Inr show ?thesis by (intro stopped[of es c1]) auto
        next
          case False
          then have ok: "2 \<le> length (Curve s)" "validateCurvePoints (sort_Slice env (Curve s)) = None"
            by auto
          show ?thesis
          proof (cases "WriteFile_err env (pwmPath @ ''_enable'') ''1''")
            case (Some err)
            with r ok have "c' = c1\<lparr>effects := effects c1 @ [Wrote (pwmPath @ ''_enable'') ''1'']\<rparr>" "r \<noteq> None"
              by (auto simp: WriteSys_def)
            with f curve Inr show ?thesis by (intro stopped[of es c1]) auto
          next
            case None
            with r ok have "c' = startFanCurve f (sort_Slice env (Curve s))
                (c1\<lparr>effects := effects c1 @ [Wrote (pwmPath @ ''_enable'') ''1'']\<rparr>)" "r = None"
              by (auto simp: WriteSys_def)
            with f curve Inr ok show ?thesis by (intro started[of es c1]) auto
          qed
        qed
      qed
    qed
  qed
qed







lemma validateCurvePoints_Some:
  "validateCurvePoints cv = Some e \<Longrightarrow>
     e = Error (''temperature must be between 0 and 100'' @ [CHR 0xEC, CHR 0xA7, CHR 0xB8] @ ''C'')
     \<or> e = Error ''fan speed must be between 0 and 100%''"
  by (induction cv) (auto split: if_splits)

section \<open>Fan numbers out of range\<close>

text \<open>
  A fan number at or above the number of fans is refused by both functions with the
  ``not found'' error, before anything is read or written.
\<close>

lemma SetSettings_not_found:
  "fanID \<ge> int (length (pwmPaths c)) \<Longrightarrow>
     SetSettings env fanID settings c = (Some (Error (''fan ID '' @ fmt_d fanID @ '' not found'')), c)
     \<and> GetSettings env fanID c = (Inl (Error (''fan ID '' @ fmt_d fanID @ '' not found'')), c)"
  by (simp add: SetSettings_def GetSettings_def)

text \<open>
  A negative fan number passes the guard \<open>fanID >= len(c.pwmPaths)\<close> and both functions
  panic at \<open>c.pwmPaths[fanID]\<close>, in every state with the invariant.
\<close>

lemma SetSettings_negative:
  assumes "wf c" "fanID < 0"
  shows "SetSettings env fanID settings c
           = (Some (Panic (''runtime error: index out of range ['' @ fmt_d fanID @ '']'')), c)"
    and "GetSettings env fanID c
           = (Inl (Panic (''runtime error: index out of range ['' @ fmt_d fanID @ '']'')), c)"
proof -
  show "SetSettings env fanID settings c
           = (Some (Panic (''runtime error: index out of range ['' @ fmt_d fanID @ '']'')), c)"
    using assms(2) by (simp add: SetSettings_def)
  have "curveStates c fanID = None"
  proof (cases "curveStates c fanID")
    case (Some a)
    from wf_stateD(4)[OF assms(1) Some] assms(2) show ?thesis by simp
  qed simp
  with assms(2) show "GetSettings env fanID c
           = (Inl (Panic (''runtime error: index out of range ['' @ fmt_d fanID @ '']'')), c)"
    by (simp add: GetSettings_def)
qed

text \<open>
  Claim C8 at the fan number \<open>-1\<close>, on a new controller with any fans and any environment:
  \<open>SetSettings\<close> and \<open>GetSettings\<close> do not return the ``not found'' error, they panic
  with an index out of range.
\<close>

theorem fanID_negative_panics:
  "SetSettings env (- 1) settings (newPlatformController pwm fans temps)
     = (Some (Panic ''runtime error: index out of range [-1]''), newPlatformController pwm fans temps)
   \<and> GetSettings env (- 1) (newPlatformController pwm fans temps)
     = (Inl (Panic ''runtime error: index out of range [-1]''), newPlatformController pwm fans temps)"
  by (simp add: SetSettings_def GetSettings_def newPlatformController_def fmt_simps)


section \<open>Leaving curve mode\<close>

text \<open>
  A call of \<open>SetSettings\<close> with the mode \<open>auto\<close> or \<open>fixed\<close> leaves every curve state
  and goroutine as it is, whatever the call returns.
\<close>

lemma SetSettings_auto_fixed_keeps_loops:
  assumes "SetSettings env f s c = (r, c')" and "Mode s = ModeAuto \<or> Mode s = ModeFixed"
  shows "curveStates c' = curveStates c \<and> heap c' = heap c \<and> goroutines c' = goroutines c"
  using assms(1)
proof (cases rule: SetSettings_cases)
  case (log_only es)
  then show ?thesis by simp
next
  case (stopped es c1)
  with assms(2) show ?thesis by (simp add: ModeAuto_def ModeFixed_def ModeCurve_def)
next
  case (started es c1 es1)
  with assms(2) show ?thesis by (simp add: ModeAuto_def ModeFixed_def ModeCurve_def)
qed

lemmas fan_eval = SetSettings_def GetSettings_def newPlatformController_def quiet_env_def
  ModeAuto_def ModeFixed_def ModeCurve_def stopFanCurve_def startFanCurve_def WriteSys_def
  curveTick_def setPWMSpeed_def interpolateFanSpeed_def interpolateLoop.simps go_int_defs
  fmt_simps live_def Let_def sort_Slice_def

lemmas ex_defs = one_fan_def curve_A_def curve_B_def loop_A_def locked_env_def

text \<open>
  Claim C1 on one fan: the fan is put in curve mode (0 C \<rightarrow> 20%, 100 C \<rightarrow> 100%) and then in
  \<open>auto\<close> mode, both calls succeeding. After the second call the fan's curve state is
  still in \<open>curveStates\<close>, active and with its channel open, its goroutine is live, and
  its next tick at 50 C writes the curve's value (60%, PWM 153) to the fan's control file,
  after the write of \<open>2\<close> that set the automatic mode.
\<close>

theorem SetSettings_auto_leaves_curve_loop_running:
  "\<exists>c1 c2 c3.
     SetSettings (quiet_env [] 0) 0
       \<lparr>Mode = ModeCurve, FixedSpeed = 0,
        Curve = [\<lparr>Temperature = 0, FanSpeed = 20\<rparr>, \<lparr>Temperature = 100, FanSpeed = 100\<rparr>]\<rparr>
       (newPlatformController [''/sys/class/hwmon/hwmon0/pwm1''] [] []) = (None, c1)
     \<and> SetSettings (quiet_env [] 0) 0 \<lparr>Mode = ModeAuto, FixedSpeed = 0, Curve = []\<rparr> c1 = (None, c2)
     \<and> curveStates c2 0 = Some 0
     \<and> heap c2 ! 0 = \<lparr>curve = [\<lparr>Temperature = 0, FanSpeed = 20\<rparr>,
                                 \<lparr>Temperature = 100, FanSpeed = 100\<rparr>],
                        lastTemp = 0, isActive = True, stopChannel = ChanOpen\<rparr>
     \<and> live c2 \<lparr>g_fanID = 0, g_curve = [\<lparr>Temperature = 0, FanSpeed = 20\<rparr>,
                                           \<lparr>Temperature = 100, FanSpeed = 100\<rparr>], g_state = 0\<rparr>
     \<and> curveTick (quiet_env [] 0)
           \<lparr>g_fanID = 0, g_curve = [\<lparr>Temperature = 0, FanSpeed = 20\<rparr>,
                                   \<lparr>Temperature = 100, FanSpeed = 100\<rparr>], g_state = 0\<rparr> 50 c2 = Inr c3
     \<and> effects c3 =
          [Statted ''/sys/class/hwmon/hwmon0/pwm1'', Opened ''/sys/class/hwmon/hwmon0/pwm1'',
           Statted ''/sys/class/hwmon/hwmon0/pwm1_enable'', Opened ''/sys/class/hwmon/hwmon0/pwm1_enable'',
           Wrote ''/sys/class/hwmon/hwmon0/pwm1_enable'' ''1'',
           Statted ''/sys/class/hwmon/hwmon0/pwm1'', Opened ''/sys/class/hwmon/hwmon0/pwm1'',
           Statted ''/sys/class/hwmon/hwmon0/pwm1_enable'', Opened ''/sys/class/hwmon/hwmon0/pwm1_enable'',
           Wrote ''/sys/class/hwmon/hwmon0/pwm1_enable'' ''2'',
           Wrote ''/sys/class/hwmon/hwmon0/pwm1'' ''153'']"
  by (simp add: fan_eval)

section \<open>Ticks\<close>







section \<open>One curve loop per fan\<close>








section \<open>An invalid curve for a fan whose loop is running\<close>

text \<open>
  Claim C10 as the code has it. The fan is one of the controller's and a curve loop is
  running for it: its curve state is registered, allocated and active, with its stop
  channel open. When the check of the write permissions on the fan's two control files
  passes, a call of \<open>SetSettings\<close> with the mode \<open>curve\<close> and a curve of fewer than two
  points, or with a point whose temperature or speed is outside 0..100, returns one of the
  three validation errors. The state it leaves is the state before the call with the
  fan's curve state made inactive, its stop channel closed and its entry removed from
  \<open>curveStates\<close>: the stop comes before the validation, nothing restores the loop and no
  goroutine is started. Where the running loop was the fan's only goroutine with an open
  channel, none has one afterwards. The only accesses to the system are the four of the
  permission check: nothing is written to the control files.
\<close>

theorem SetSettings_invalid_curve_stops_loop:
  assumes fan: "0 \<le> fanID" "fanID < int (length (pwmPaths c))"
    and running: "curveStates c fanID = Some a" "a < length (heap c)"
      "isActive (heap c ! a)" "stopChannel (heap c ! a) = ChanOpen"
    and perm: "checkWritePermissions env
                 [pwmPaths c ! nat fanID, pwmPaths c ! nat fanID @ ''_enable''] (effects c) = (None, es)"
    and m: "Mode settings = ModeCurve"
    and inv: "length (Curve settings) < 2
              \<or> (\<exists>p \<in> set (Curve settings).
                    Temperature p < 0 \<or> 100 < Temperature p \<or> FanSpeed p < 0 \<or> 100 < FanSpeed p)"
  shows "\<exists>msg c'.
           SetSettings env fanID settings c = (Some (Error msg), c')
         \<and> (msg = ''fan curve must have at least 2 points''
            \<or> msg = ''temperature must be between 0 and 100'' @ [CHR 0xEC, CHR 0xA7, CHR 0xB8] @ ''C''
            \<or> msg = ''fan speed must be between 0 and 100%'')
         \<and> c' = c\<lparr>effects := es,
                    heap := (heap c)[a := (heap c ! a)\<lparr>isActive := False, stopChannel := ChanClosed\<rparr>],
                    curveStates := (curveStates c)(fanID := None)\<rparr>
         \<and> curveStates c' fanID = None
         \<and> \<not> isActive (heap c' ! a) \<and> stopChannel (heap c' ! a) = ChanClosed
         \<and> goroutines c' = goroutines c
         \<and> ((\<forall>g \<in> set (goroutines c).
                g_fanID g = fanID \<and> stopChannel (heap c ! g_state g) = ChanOpen \<longrightarrow> g_state g = a)
             \<longrightarrow> \<not> (\<exists>g. g_fanID g = fanID \<and> live c' g))
         \<and> es = effects c @ [Statted (pwmPaths c ! nat fanID), Opened (pwmPaths c ! nat fanID),
                               Statted (pwmPaths c ! nat fanID @ ''_enable''),
                               Opened (pwmPaths c ! nat fanID @ ''_enable'')]"
proof -
  let ?closed = "(heap c)[a := (heap c ! a)\<lparr>isActive := False, stopChannel := ChanClosed\<rparr>]"
  let ?c' = "c\<lparr>effects := es, heap := ?closed, curveStates := (curveStates c)(fanID := None)\<rparr>"
  have es: "es = effects c @ [Statted (pwmPaths c ! nat fanID), Opened (pwmPaths c ! nat fanID),
                               Statted (pwmPaths c ! nat fanID @ ''_enable''),
                               Opened (pwmPaths c ! nat fanID @ ''_enable'')]"
    using perm by (simp add: checkWritePermissions_two split: option.splits)
  have stop: "stopFanCurve fanID (c\<lparr>effects := es\<rparr>) = Inr ?c'"
    using running by (simp add: stopFanCurve_def)
  have bad: "\<exists>e. validateCurvePoints (sort_Slice env (Curve settings)) = Some e"
    if "\<not> length (Curve settings) < 2"
  proof -
    from inv that obtain p where "p \<in> set (Curve settings)"
      "Temperature p < 0 \<or> 100 < Temperature p \<or> FanSpeed p < 0 \<or> 100 < FanSpeed p"
      by blast
    then have "validateCurvePoints (sort_Slice env (Curve settings)) \<noteq> None"
      unfolding validateCurvePoints_None sort_Slice_set by (auto simp: not_le)
    then show ?thesis by auto
  qed
  have res: "\<exists>msg. SetSettings env fanID settings c = (Some (Error msg), ?c')
         \<and> (msg = ''fan curve must have at least 2 points''
            \<or> msg = ''temperature must be between 0 and 100'' @ [CHR 0xEC, CHR 0xA7, CHR 0xB8] @ ''C''
            \<or> msg = ''fan speed must be between 0 and 100%'')"
  proof (cases "length (Curve settings) < 2")
    case True
    then show ?thesis
      using fan perm m stop
      by (simp add: SetSettings_def Let_def ModeCurve_def ModeAuto_def ModeFixed_def)
  next
    case False
    from bad[OF False] obtain e where e: "validateCurvePoints (sort_Slice env (Curve settings)) = Some e"
      by blast
    from validateCurvePoints_Some[OF e] False e show ?thesis
      using fan perm m stop
      by (auto simp: SetSettings_def Let_def ModeCurve_def ModeAuto_def ModeFixed_def)
  qed
  then obtain msg where call: "SetSettings env fanID settings c = (Some (Error msg), ?c')"
    and msg: "msg = ''fan curve must have at least 2 points''
            \<or> msg = ''temperature must be between 0 and 100'' @ [CHR 0xEC, CHR 0xA7, CHR 0xB8] @ ''C''
            \<or> msg = ''fan speed must be between 0 and 100%''"
    by blast
  have at_a: "\<not> isActive (heap ?c' ! a)" "stopChannel (heap ?c' ! a) = ChanClosed"
    using running(2) by simp_all
  have nolive: "\<not> (\<exists>g. g_fanID g = fanID \<and> live ?c' g)"
    if only: "\<forall>g \<in> set (goroutines c).
                g_fanID g = fanID \<and> stopChannel (heap c ! g_state g) = ChanOpen \<longrightarrow> g_state g = a"
  proof
    assume "\<exists>g. g_fanID g = fanID \<and> live ?c' g"
    then obtain g where g: "g_fanID g = fanID" "g \<in> set (goroutines c)"
      "stopChannel (?closed ! g_state g) = ChanOpen"
      by (auto simp: live_def)
    show False
    proof (cases "g_state g = a")
      case True
      with g(3) at_a(2) show False by simp
    next
      case False
      then have "?closed ! g_state g = heap c ! g_state g" by simp
      with g only False show False by auto
    qed
  qed
  show ?thesis
    using call msg at_a nolive es
    by (intro exI[of _ msg] exI[of _ ?c']) simp
qed

text \<open>
  The theorem on one fan: a curve is set, then a curve whose second point asks for a speed
  of 150%.
\<close>

theorem SetSettings_invalid_curve_stops_loop_witness:
  "SetSettings (quiet_env [] 0) 0 curve_A one_fan = (None, state_A)
   \<and> curveStates state_A 0 = Some 0
   \<and> isActive (heap state_A ! 0) \<and> stopChannel (heap state_A ! 0) = ChanOpen
   \<and> live state_A loop_A
   \<and> (\<exists>c'. SetSettings (quiet_env [] 0) 0
          \<lparr>Mode = ModeCurve, FixedSpeed = 0,
           Curve = [\<lparr>Temperature = 30, FanSpeed = 20\<rparr>, \<lparr>Temperature = 70, FanSpeed = 150\<rparr>]\<rparr>
          state_A = (Some (Error ''fan speed must be between 0 and 100%''), c')
      \<and> curveStates c' 0 = None
      \<and> \<not> isActive (heap c' ! 0) \<and> stopChannel (heap c' ! 0) = ChanClosed
      \<and> goroutines c' = goroutines state_A
      \<and> \<not> (\<exists>g. g_fanID g = 0 \<and> live c' g)
      \<and> effects c' = effects state_A
           @ [Statted ''/sys/class/hwmon/hwmon0/pwm1'', Opened ''/sys/class/hwmon/hwmon0/pwm1'',
              Statted ''/sys/class/hwmon/hwmon0/pwm1_enable'', Opened ''/sys/class/hwmon/hwmon0/pwm1_enable''])"
proof -
  let ?env = "quiet_env [] 0"
  let ?s2 = "\<lparr>Mode = ModeCurve, FixedSpeed = 0,
           Curve = [\<lparr>Temperature = 30, FanSpeed = 20\<rparr>, \<lparr>Temperature = 70, FanSpeed = 150\<rparr>]\<rparr>"
  let ?es = "[Statted ''/sys/class/hwmon/hwmon0/pwm1'', Opened ''/sys/class/hwmon/hwmon0/pwm1'',
             Statted ''/sys/class/hwmon/hwmon0/pwm1_enable'', Opened ''/sys/class/hwmon/hwmon0/pwm1_enable'']"
  have 1: "SetSettings ?env 0 curve_A one_fan = (None, state_A)"
    unfolding state_A_def by (simp add: ex_defs fan_eval)
  have st: "curveStates state_A 0 = Some 0" "0 < length (heap state_A)"
    "isActive (heap state_A ! 0)" "stopChannel (heap state_A ! 0) = ChanOpen"
    unfolding state_A_def by (simp_all add: ex_defs fan_eval)
  have fan: "(0::int) \<le> 0" "0 < int (length (pwmPaths state_A))"
    unfolding state_A_def by (simp_all add: ex_defs fan_eval)
  have p: "pwmPaths state_A ! nat 0 = ''/sys/class/hwmon/hwmon0/pwm1''"
    unfolding state_A_def by (simp add: ex_defs fan_eval)
  have lv: "live state_A loop_A"
    unfolding state_A_def by (simp add: ex_defs fan_eval)
  have only: "\<forall>g \<in> set (goroutines state_A).
                g_fanID g = 0 \<and> stopChannel (heap state_A ! g_state g) = ChanOpen \<longrightarrow> g_state g = 0"
    unfolding state_A_def by (simp add: ex_defs fan_eval)
  have perm: "checkWritePermissions ?env [pwmPaths state_A ! nat 0, pwmPaths state_A ! nat 0 @ ''_enable'']
                (effects state_A) = (None, effects state_A @ ?es)"
    unfolding p by (simp add: quiet_env_def)
  have m: "Mode ?s2 = ModeCurve" by simp
  have inv: "length (Curve ?s2) < 2
              \<or> (\<exists>p \<in> set (Curve ?s2).
                    Temperature p < 0 \<or> 100 < Temperature p \<or> FanSpeed p < 0 \<or> 100 < FanSpeed p)"
    by simp
  from SetSettings_invalid_curve_stops_loop[OF fan st perm m inv] only
  obtain msg c' where res:
    "SetSettings ?env 0 ?s2 state_A = (Some (Error msg), c')"
    "curveStates c' 0 = None" "\<not> isActive (heap c' ! 0)" "stopChannel (heap c' ! 0) = ChanClosed"
    "goroutines c' = goroutines state_A"
    "\<not> (\<exists>g. g_fanID g = 0 \<and> live c' g)"
    "c' = state_A\<lparr>effects := effects state_A @ ?es,
                    heap := (heap state_A)[0 := (heap state_A ! 0)\<lparr>isActive := False, stopChannel := ChanClosed\<rparr>],
                    curveStates := (curveStates state_A)(0 := None)\<rparr>"
    by blast
  have e: "effects c' = effects state_A @ ?es" unfolding res(7) by simp
  have "fst (SetSettings ?env 0 ?s2 state_A) = Some (Error ''fan speed must be between 0 and 100%'')"
    unfolding state_A_def by (simp add: ex_defs fan_eval)
  with res(1) have msg: "msg = ''fan speed must be between 0 and 100%''" by simp
  show ?thesis
    using 1 st(1,3,4) lv res(1-6) e unfolding msg by blast
qed

text \<open>
  The claim as the specification states it fails where the permission check fails: the
  check stands before the \<open>switch\<close>, so the call returns the permission error, whatever
  the curve, and the loop keeps running. Here the control file cannot be opened for
  writing and the curve has one point.
\<close>

theorem SetSettings_permission_error_keeps_loop_counterexample:
  "SetSettings (quiet_env [] 0) 0 curve_A one_fan = (None, state_A)
   \<and> curveStates state_A 0 = Some 0
   \<and> live state_A loop_A
   \<and> SetSettings locked_env 0
        \<lparr>Mode = ModeCurve, FixedSpeed = 0, Curve = [\<lparr>Temperature = 50, FanSpeed = 50\<rparr>]\<rparr> state_A
      = (Some (Error (''insufficient permissions for fan control: ''
                      @ ''no write permission for /sys/class/hwmon/hwmon0/pwm1''
                      @ '' (try running as root or add user to appropriate group): ''
                      @ ''open /sys/class/hwmon/hwmon0/pwm1: permission denied'')),
         state_A\<lparr>effects := effects state_A @ [Statted ''/sys/class/hwmon/hwmon0/pwm1'',
                                                Opened ''/sys/class/hwmon/hwmon0/pwm1'']\<rparr>)
   \<and> curveStates (state_A\<lparr>effects := effects state_A @ [Statted ''/sys/class/hwmon/hwmon0/pwm1'',
                                                Opened ''/sys/class/hwmon/hwmon0/pwm1'']\<rparr>) 0 = Some 0
   \<and> live (state_A\<lparr>effects := effects state_A @ [Statted ''/sys/class/hwmon/hwmon0/pwm1'',
                                                Opened ''/sys/class/hwmon/hwmon0/pwm1'']\<rparr>) loop_A"
  unfolding state_A_def by (simp add: ex_defs fan_eval errMsg_def)

end
